theory Spec2Isabelle
  imports Complex_Main
begin

section \<open>Pattern detection (models/pattern\_detector.py)\<close>

text \<open>
  Python floats are modelled as real numbers throughout.  A price frame is the list of its
  rows (time ascending); the OHLC columns are always there, the \<open>volume\<close> column is optional
  because \<open>calculate_reliability\<close> asks whether it is present.  The free-text
  \<open>description\<close> of a pattern is not modelled.
\<close>

record candle =
  timestamp :: int
  open_price :: real
  high_price :: real
  low_price :: real
  close_price :: real

record data_frame =
  rows :: "candle list"
  volume :: "real list option"

datatype pattern_type = SupportResistance | Trends | Candlestick | Technical

datatype signal = Bullish | Bearish | Neutral

datatype param = PNum real | PInt int | PStr string

text \<open>
  The \<open>id\<close> of a pattern is a name followed by a number (\<open>f"hammer_{i}"\<close>): the pair of
  both.
\<close>

type_synonym pattern_id = "string \<times> nat"

record pattern =
  pid :: pattern_id
  ptype :: pattern_type
  name :: string
  start_time :: int
  end_time :: int
  confidence :: real
  signal :: signal
  target_price :: "real option"
  stop_loss :: "real option"
  parameters :: "(string \<times> param) list"

subsection \<open>Candlestick matchers\<close>

definition body_size :: "candle \<Rightarrow> real" where
  "body_size c = \<bar>close_price c - open_price c\<bar>"

definition lower_shadow :: "candle \<Rightarrow> real" where
  "lower_shadow c = min (open_price c) (close_price c) - low_price c"

definition upper_shadow :: "candle \<Rightarrow> real" where
  "upper_shadow c = high_price c - max (open_price c) (close_price c)"

definition detect_doji :: "data_frame \<Rightarrow> pattern list" where
  "detect_doji data =
     concat (map (\<lambda>i.
       let c = rows data ! i;
           range_size = high_price c - low_price c
       in if range_size > 0 \<and> body_size c / range_size < 0.1
          then [\<lparr>pid = (''doji'', i), ptype = Candlestick, name = ''Doji'',
                 start_time = timestamp c, end_time = timestamp c,
                 confidence = 0.6, signal = Neutral,
                 target_price = None, stop_loss = None,
                 parameters = [(''body_ratio'',
                                  PNum (if range_size > 0 then body_size c / range_size else 0)),
                               (''type'', PStr ''doji'')]\<rparr>]
          else [])
       [0..<length (rows data)])"

definition detect_hammer :: "data_frame \<Rightarrow> pattern list" where
  "detect_hammer data =
     concat (map (\<lambda>i.
       let c = rows data ! i
       in if body_size c > 0 \<and> lower_shadow c > 2 * body_size c \<and>
             upper_shadow c < body_size c \<and>
             lower_shadow c > 0.6 * (high_price c - low_price c)
          then [\<lparr>pid = (''hammer'', i), ptype = Candlestick, name = ''Hammer'',
                 start_time = timestamp c, end_time = timestamp c,
                 confidence = 0.75, signal = Bullish,
                 target_price = None, stop_loss = None,
                 parameters = [(''lower_shadow_ratio'',
                                  PNum (if body_size c > 0 then lower_shadow c / body_size c else 0)),
                               (''type'', PStr ''hammer'')]\<rparr>]
          else [])
       [0..<length (rows data)])"

definition detect_shooting_star :: "data_frame \<Rightarrow> pattern list" where
  "detect_shooting_star data =
     concat (map (\<lambda>i.
       let c = rows data ! i
       in if body_size c > 0 \<and> upper_shadow c > 2 * body_size c \<and>
             lower_shadow c < body_size c \<and>
             upper_shadow c > 0.6 * (high_price c - low_price c)
          then [\<lparr>pid = (''shooting_star'', i), ptype = Candlestick, name = ''Shooting Star'',
                 start_time = timestamp c, end_time = timestamp c,
                 confidence = 0.75, signal = Bearish,
                 target_price = None, stop_loss = None,
                 parameters = [(''upper_shadow_ratio'',
                                  PNum (if body_size c > 0 then upper_shadow c / body_size c else 0)),
                               (''type'', PStr ''shooting_star'')]\<rparr>]
          else [])
       [0..<length (rows data)])"

definition detect_engulfing_bullish :: "data_frame \<Rightarrow> pattern list" where
  "detect_engulfing_bullish data =
     concat (map (\<lambda>i.
       let prev_candle = rows data ! (i - 1);
           curr_candle = rows data ! i
       in if close_price prev_candle < open_price prev_candle \<and>
             close_price curr_candle > open_price curr_candle \<and>
             open_price curr_candle < close_price prev_candle \<and>
             close_price curr_candle > open_price prev_candle
          then [\<lparr>pid = (''bullish_engulfing'', i), ptype = Candlestick,
                 name = ''Bullish Engulfing'',
                 start_time = timestamp prev_candle, end_time = timestamp curr_candle,
                 confidence = 0.8, signal = Bullish,
                 target_price = None, stop_loss = None,
                 parameters = [(''engulfing_ratio'',
                                  PNum ((close_price curr_candle - open_price curr_candle) /
                                        (open_price prev_candle - close_price prev_candle))),
                               (''type'', PStr ''bullish_engulfing'')]\<rparr>]
          else [])
       [1..<length (rows data)])"

definition detect_engulfing_bearish :: "data_frame \<Rightarrow> pattern list" where
  "detect_engulfing_bearish data =
     concat (map (\<lambda>i.
       let prev_candle = rows data ! (i - 1);
           curr_candle = rows data ! i
       in if close_price prev_candle > open_price prev_candle \<and>
             close_price curr_candle < open_price curr_candle \<and>
             open_price curr_candle > close_price prev_candle \<and>
             close_price curr_candle < open_price prev_candle
          then [\<lparr>pid = (''bearish_engulfing'', i), ptype = Candlestick,
                 name = ''Bearish Engulfing'',
                 start_time = timestamp prev_candle, end_time = timestamp curr_candle,
                 confidence = 0.8, signal = Bearish,
                 target_price = None, stop_loss = None,
                 parameters = [(''engulfing_ratio'',
                                  PNum ((open_price curr_candle - close_price curr_candle) /
                                        (close_price prev_candle - open_price prev_candle))),
                               (''type'', PStr ''bearish_engulfing'')]\<rparr>]
          else [])
       [1..<length (rows data)])"

text \<open>The remaining registered matchers are placeholders that return no pattern.\<close>

definition detect_morning_star :: "data_frame \<Rightarrow> pattern list" where
  "detect_morning_star data = []"

definition detect_evening_star :: "data_frame \<Rightarrow> pattern list" where
  "detect_evening_star data = []"

definition detect_three_white_soldiers :: "data_frame \<Rightarrow> pattern list" where
  "detect_three_white_soldiers data = []"

definition detect_three_black_crows :: "data_frame \<Rightarrow> pattern list" where
  "detect_three_black_crows data = []"

definition candlestick_patterns :: "(string \<times> (data_frame \<Rightarrow> pattern list)) list" where
  "candlestick_patterns =
     [(''doji'', detect_doji), (''hammer'', detect_hammer),
      (''shooting_star'', detect_shooting_star),
      (''engulfing_bullish'', detect_engulfing_bullish),
      (''engulfing_bearish'', detect_engulfing_bearish),
      (''morning_star'', detect_morning_star), (''evening_star'', detect_evening_star),
      (''three_white_soldiers'', detect_three_white_soldiers),
      (''three_black_crows'', detect_three_black_crows)]"

definition detect_candlestick_patterns :: "data_frame \<Rightarrow> pattern list" where
  "detect_candlestick_patterns data =
     fold (\<lambda>(pattern_name, detector_func) patterns. patterns @ detector_func data)
       candlestick_patterns []"

subsection \<open>Reliability scores\<close>

definition check_volume_confirmation :: "data_frame \<Rightarrow> pattern \<Rightarrow> real" where
  "check_volume_confirmation data p = 0.1"

definition analyze_market_context :: "data_frame \<Rightarrow> pattern \<Rightarrow> real" where
  "analyze_market_context data p = 1.0"

definition check_pattern_completion :: "data_frame \<Rightarrow> pattern \<Rightarrow> real" where
  "check_pattern_completion data p = 1.0"

text \<open>The body of the loop of \<open>calculate_reliability\<close>: the score of one pattern.\<close>

definition reliability_score :: "data_frame \<Rightarrow> pattern \<Rightarrow> real" where
  "reliability_score data p =
     (let base_score = confidence p;
          base_score = (if volume data \<noteq> None
                        then base_score * (1 + check_volume_confirmation data p * 0.2)
                        else base_score);
          base_score = base_score * analyze_market_context data p;
          base_score = base_score * check_pattern_completion data p
      in min 1.0 base_score)"

text \<open>The scores are stored under the pattern's id; a later pattern with the same id
  overwrites an earlier one.\<close>

definition calculate_reliability :: "data_frame \<Rightarrow> pattern list \<Rightarrow> (pattern_id \<rightharpoonup> real)" where
  "calculate_reliability data patterns =
     fold (\<lambda>p reliability_scores. reliability_scores(pid p \<mapsto> reliability_score data p))
       patterns Map.empty"

subsection \<open>Support and resistance levels\<close>

text \<open>
  Exceptions are values: a computation that can raise returns \<open>error + 'a\<close>, \<open>Inl\<close> the
  exception.
\<close>

datatype error = KeyError string | IndexError | ValueError | ZeroDivisionError | LinAlgError

definition bind_res :: "error + 'a \<Rightarrow> ('a \<Rightarrow> error + 'b) \<Rightarrow> error + 'b" where
  "bind_res m f = (case m of Inl e \<Rightarrow> Inl e | Inr x \<Rightarrow> f x)"

text \<open>\<open>np.mean\<close> and \<open>np.std\<close> (the population standard deviation).\<close>

definition np_mean :: "real list \<Rightarrow> real" where
  "np_mean xs = sum_list xs / real (length xs)"

definition np_std :: "real list \<Rightarrow> real" where
  "np_std xs = sqrt (np_mean (map (\<lambda>x. (x - np_mean xs)\<^sup>2) xs))"

text \<open>
  Two library routines are parameters of the model.  \<open>find_peaks xs prominence\<close> is
  scipy's peak finder (the indices of the peaks of \<open>xs\<close>); \<open>dbscan eps min_samples xs\<close> is
  scikit-learn's \<open>DBSCAN(eps, min_samples).fit_predict\<close> on one-dimensional samples: one
  label per sample, \<open>-1\<close> for noise.
\<close>

type_synonym peak_finder = "real list \<Rightarrow> real \<Rightarrow> nat list"

type_synonym clusterer = "real \<Rightarrow> nat \<Rightarrow> real list \<Rightarrow> int list"

definition find_significant_peaks :: "peak_finder \<Rightarrow> real list \<Rightarrow> real \<Rightarrow> nat list" where
  "find_significant_peaks find_peaks xs prominence = find_peaks xs (prominence * np_mean xs)"

definition find_significant_valleys :: "peak_finder \<Rightarrow> real list \<Rightarrow> real \<Rightarrow> nat list" where
  "find_significant_valleys find_peaks xs prominence =
     find_peaks (map uminus xs) (prominence * np_mean xs)"

text \<open>\<open>levels[cluster_labels == cluster_id]\<close>: the levels that carry the label.\<close>

definition cluster_points :: "real list \<Rightarrow> int list \<Rightarrow> int \<Rightarrow> real list" where
  "cluster_points levels cluster_labels cluster_id =
     map fst (filter (\<lambda>(x, l). l = cluster_id) (zip levels cluster_labels))"

text \<open>
  The loop runs over \<open>set(cluster_labels)\<close>, whose iteration order Python leaves open; the
  model visits the labels in ascending order.
\<close>

definition cluster_levels :: "clusterer \<Rightarrow> real list \<Rightarrow> real \<Rightarrow> (real \<times> real \<times> nat) list" where
  "cluster_levels dbscan levels eps =
     (if length levels < 2 then []
      else
        let cluster_labels = dbscan (eps * np_mean levels) 2 levels
        in concat (map (\<lambda>cluster_id.
             if cluster_id = - 1 then []
             else
               let pts = cluster_points levels cluster_labels cluster_id
               in if length pts \<ge> 2
                  then [(np_mean pts, real (length pts) * np_std pts, length pts)]
                  else [])
             (sorted_list_of_set (set cluster_labels))))"

text \<open>\<open>series.iloc[idxs].values\<close>: positional selection, IndexError out of bounds.\<close>

definition iloc :: "'a list \<Rightarrow> nat list \<Rightarrow> error + 'a list" where
  "iloc xs idxs =
     (if list_all (\<lambda>i. i < length xs) idxs then Inr (map (\<lambda>i. xs ! i) idxs) else Inl IndexError)"

definition resistance_pattern :: "nat \<Rightarrow> int \<Rightarrow> int \<Rightarrow> real \<times> real \<times> nat \<Rightarrow> pattern" where
  "resistance_pattern n t0 t1 lvl =
     (case lvl of (level, strength, touches) \<Rightarrow>
       \<lparr>pid = (''resistance'', n), ptype = SupportResistance, name = ''Resistance Level'',
        start_time = t0, end_time = t1,
        confidence = min 0.9 (strength / 10), signal = Bearish,
        target_price = Some level, stop_loss = Some (level * 1.005),
        parameters = [(''level'', PNum level), (''strength'', PNum strength),
                      (''touches'', PInt (int touches)), (''type'', PStr ''resistance'')]\<rparr>)"

definition support_pattern :: "nat \<Rightarrow> int \<Rightarrow> int \<Rightarrow> real \<times> real \<times> nat \<Rightarrow> pattern" where
  "support_pattern n t0 t1 lvl =
     (case lvl of (level, strength, touches) \<Rightarrow>
       \<lparr>pid = (''support'', n), ptype = SupportResistance, name = ''Support Level'',
        start_time = t0, end_time = t1,
        confidence = min 0.9 (strength / 10), signal = Bullish,
        target_price = Some level, stop_loss = Some (level * 0.995),
        parameters = [(''level'', PNum level), (''strength'', PNum strength),
                      (''touches'', PInt (int touches)), (''type'', PStr ''support'')]\<rparr>)"

text \<open>
  One of the two blocks of \<open>_detect_support_resistance\<close>: when more than two extrema were
  found, cluster their prices and append one pattern per level, numbered by the length of
  the list so far.  \<open>data.index[max(0, idxs[0] - 10)]\<close> and \<open>data.index[-1]\<close> are the start
  and end times; once the selection of the extrema has succeeded both are in range, so
  only that selection can raise.
\<close>

definition append_levels ::
  "clusterer \<Rightarrow> (nat \<Rightarrow> int \<Rightarrow> int \<Rightarrow> real \<times> real \<times> nat \<Rightarrow> pattern) \<Rightarrow> candle list \<Rightarrow>
   real list \<Rightarrow> nat list \<Rightarrow> pattern list \<Rightarrow> error + pattern list" where
  "append_levels dbscan mk rs col idxs patterns =
     (if length idxs > 2
      then bind_res (iloc col idxs) (\<lambda>levels.
           bind_res (iloc rs [nat (max 0 (int (hd idxs) - 10))]) (\<lambda>first.
           if rs = [] then Inl IndexError
           else Inr (fold (\<lambda>lvl ps. ps @ [mk (length ps) (timestamp (hd first))
                                               (timestamp (last rs)) lvl])
                       (cluster_levels dbscan levels 0.001) patterns)))
      else Inr patterns)"

definition detect_support_resistance ::
  "peak_finder \<Rightarrow> clusterer \<Rightarrow> data_frame \<Rightarrow> error + pattern list" where
  "detect_support_resistance find_peaks dbscan data =
     (let highs = find_significant_peaks find_peaks (map high_price (rows data)) 0.001;
          lows = find_significant_valleys find_peaks (map low_price (rows data)) 0.001
      in bind_res (append_levels dbscan resistance_pattern (rows data)
                     (map high_price (rows data)) highs [])
           (append_levels dbscan support_pattern (rows data)
              (map low_price (rows data)) lows))"

section \<open>Risk calculation (models/risk\_calculator.py)\<close>

subsection \<open>Exceptions and the random source\<close>

text \<open>
  The random source is the stream of standard normal variates that numpy's generator
  will hand out next; \<open>np.random.normal(loc, scale)\<close> takes the first and leaves the rest.
  A computation that draws returns its value with the remaining stream (\<open>total\<close>); one that
  can also raise returns \<open>error + 'a\<close> with it (\<open>comp\<close>).  \<open>try_except\<close> is
  \<open>try: ... except Exception\<close>: the handler runs on the stream the failed body left.
\<close>

type_synonym rng = "nat \<Rightarrow> real"

type_synonym 'a total = "rng \<Rightarrow> 'a \<times> rng"

type_synonym 'a comp = "rng \<Rightarrow> (error + 'a) \<times> rng"

definition random_normal :: "real \<Rightarrow> real \<Rightarrow> real total" where
  "random_normal loc scale g = (loc + scale * g 0, \<lambda>k. g (Suc k))"

definition random_normal_vec :: "real \<Rightarrow> real \<Rightarrow> nat \<Rightarrow> real list total" where
  "random_normal_vec loc scale n g = (map (\<lambda>k. loc + scale * g k) [0..<n], \<lambda>k. g (n + k))"

definition return_total :: "'a \<Rightarrow> 'a total" where
  "return_total x g = (x, g)"

definition return_st :: "'a \<Rightarrow> 'a comp" where
  "return_st x g = (Inr x, g)"

definition lift_res :: "error + 'a \<Rightarrow> 'a comp" where
  "lift_res r g = (r, g)"

definition lift_total :: "'a total \<Rightarrow> 'a comp" where
  "lift_total m g = (case m g of (x, g') \<Rightarrow> (Inr x, g'))"

definition bind_st :: "'a comp \<Rightarrow> ('a \<Rightarrow> 'b comp) \<Rightarrow> 'b comp" where
  "bind_st m f g = (case m g of (Inl e, g') \<Rightarrow> (Inl e, g') | (Inr x, g') \<Rightarrow> f x g')"

definition try_except :: "'a comp \<Rightarrow> (error \<Rightarrow> 'a total) \<Rightarrow> 'a total" where
  "try_except m handler g = (case m g of (Inl e, g') \<Rightarrow> handler e g' | (Inr x, g') \<Rightarrow> (x, g'))"

definition try_except_res :: "error + 'a \<Rightarrow> (error \<Rightarrow> 'a) \<Rightarrow> 'a" where
  "try_except_res m handler = (case m of Inl e \<Rightarrow> handler e | Inr x \<Rightarrow> x)"

text \<open>A \<open>for\<close> loop with an accumulator; it stops at the first exception.\<close>

fun fold_res :: "('a \<Rightarrow> 'b \<Rightarrow> error + 'b) \<Rightarrow> 'a list \<Rightarrow> 'b \<Rightarrow> error + 'b" where
  "fold_res f [] acc = Inr acc"
| "fold_res f (x # xs) acc = bind_res (f x acc) (fold_res f xs)"

fun fold_st :: "('a \<Rightarrow> 'b \<Rightarrow> 'b comp) \<Rightarrow> 'a list \<Rightarrow> 'b \<Rightarrow> 'b comp" where
  "fold_st f [] acc = return_st acc"
| "fold_st f (x # xs) acc = bind_st (f x acc) (fold_st f xs)"

text \<open>\<open>for _ in range(n)\<close>.\<close>

fun repeat_st :: "nat \<Rightarrow> ('b \<Rightarrow> 'b comp) \<Rightarrow> 'b \<Rightarrow> 'b comp" where
  "repeat_st 0 f acc = return_st acc"
| "repeat_st (Suc n) f acc = bind_st (f acc) (repeat_st n f)"

definition py_div :: "real \<Rightarrow> real \<Rightarrow> error + real" where
  "py_div a b = (if b = 0 then Inl ZeroDivisionError else Inr (a / b))"

definition nth_res :: "'a list \<Rightarrow> nat \<Rightarrow> error + 'a" where
  "nth_res xs i = (if i < length xs then Inr (xs ! i) else Inl IndexError)"

text \<open>
  \<open>np.percentile(a, q)\<close> with numpy's default linear interpolation; a percentile outside
  [0, 100] is a ValueError.  The arrays it is applied to here are never empty.
\<close>

definition np_percentile :: "real list \<Rightarrow> real \<Rightarrow> error + real" where
  "np_percentile a q =
     (if q < 0 \<or> 100 < q then Inl ValueError
      else if a = [] then Inl IndexError
      else
        let s = sort a;
            pos = q / 100 * real (length a - 1);
            lo = nat \<lfloor>pos\<rfloor>;
            hi = min (lo + 1) (length a - 1)
        in Inr (s ! lo + (pos - real lo) * (s ! hi - s ! lo)))"

subsection \<open>Positions and the lookup tables\<close>

text \<open>
  A position is a dict of the request; a key may be missing (\<open>None\<close>), and reading it then
  raises KeyError.
\<close>

record position =
  symbol :: "string option"
  position_size :: "real option"
  entry_price :: "real option"

definition mk_position :: "string \<Rightarrow> real \<Rightarrow> real \<Rightarrow> position" where
  "mk_position symb psize eprice =
     \<lparr>symbol = Some symb, position_size = Some psize, entry_price = Some eprice\<rparr>"

definition well_formed :: "position \<Rightarrow> bool" where
  "well_formed p = (symbol p \<noteq> None \<and> position_size p \<noteq> None \<and> entry_price p \<noteq> None)"

definition get_symbol :: "position \<Rightarrow> error + string" where
  "get_symbol p = (case symbol p of None \<Rightarrow> Inl (KeyError ''symbol'') | Some s \<Rightarrow> Inr s)"

definition get_position :: "position \<Rightarrow> error + real" where
  "get_position p =
     (case position_size p of None \<Rightarrow> Inl (KeyError ''position'') | Some q \<Rightarrow> Inr q)"

definition get_entry_price :: "position \<Rightarrow> error + real" where
  "get_entry_price p =
     (case entry_price p of None \<Rightarrow> Inl (KeyError ''entry_price'') | Some e \<Rightarrow> Inr e)"

text \<open>\<open>abs(p['position']) * p['entry_price']\<close>.\<close>

definition position_value :: "position \<Rightarrow> error + real" where
  "position_value p =
     bind_res (get_position p) (\<lambda>psize.
     bind_res (get_entry_price p) (\<lambda>eprice. Inr (\<bar>psize\<bar> * eprice)))"

definition default_correlations :: "((string \<times> string) \<times> real) list" where
  "default_correlations =
     [((''EURUSD'', ''GBPUSD''), 0.7), ((''EURUSD'', ''USDJPY''), - 0.3),
      ((''EURUSD'', ''USDCHF''), - 0.8), ((''EURUSD'', ''AUDUSD''), 0.6),
      ((''EURUSD'', ''USDCAD''), - 0.4), ((''GBPUSD'', ''USDJPY''), - 0.2),
      ((''GBPUSD'', ''USDCHF''), - 0.6), ((''GBPUSD'', ''AUDUSD''), 0.8),
      ((''USDJPY'', ''USDCHF''), 0.4), ((''USDJPY'', ''AUDUSD''), - 0.1),
      ((''USDCHF'', ''AUDUSD''), - 0.5)]"

definition default_volatilities :: "(string \<times> real) list" where
  "default_volatilities =
     [(''EURUSD'', 0.08), (''GBPUSD'', 0.10), (''USDJPY'', 0.09), (''USDCHF'', 0.08),
      (''AUDUSD'', 0.12), (''USDCAD'', 0.09), (''NZDUSD'', 0.13), (''EURJPY'', 0.11),
      (''GBPJPY'', 0.14), (''CHFJPY'', 0.11)]"

text \<open>\<open>self.default_volatilities.get(symbol, 0.10)\<close>.\<close>

definition volatility_of :: "string \<Rightarrow> real" where
  "volatility_of symb = (case map_of default_volatilities symb of Some v \<Rightarrow> v | None \<Rightarrow> 0.10)"

definition get_correlation :: "string \<Rightarrow> string \<Rightarrow> real" where
  "get_correlation symbol1 symbol2 =
     (if symbol1 = symbol2 then 1.0
      else case map_of default_correlations (symbol1, symbol2) of
             Some c \<Rightarrow> c
           | None \<Rightarrow> (case map_of default_correlations (symbol2, symbol1) of
                        Some c \<Rightarrow> c
                      | None \<Rightarrow> 0.0))"

definition convert_timeframe_to_days :: "string \<Rightarrow> int" where
  "convert_timeframe_to_days timeframe =
     (case map_of [(''1d'', 1), (''5d'', 5), (''10d'', 10), (''1w'', 7), (''2w'', 14),
                   (''1m'', 22), (''3m'', 66), (''6m'', 132), (''1y'', 252)] timeframe of
        Some d \<Rightarrow> d
      | None \<Rightarrow> 1)"

subsection \<open>Position analysis\<close>

record position_analysis =
  pa_symbol :: string
  pa_position :: real
  pa_entry_price :: real
  current_price :: real
  market_value :: real
  unrealized_pnl :: real
  position_var :: real
  risk_contribution :: real
  correlation_risk :: real

definition get_current_price :: "string \<Rightarrow> real \<Rightarrow> real total" where
  "get_current_price symb eprice g =
     (let volatility = volatility_of symb;
          daily_vol = volatility / sqrt 252
      in case random_normal 0 daily_vol g of
           (price_change, g') \<Rightarrow> (eprice * (1 + price_change), g'))"

definition calculate_position_correlation_risk :: "string \<Rightarrow> position list \<Rightarrow> error + real" where
  "calculate_position_correlation_risk symb portfolio =
     bind_res
       (fold_res (\<lambda>p correlation_risk.
            bind_res (get_symbol p) (\<lambda>other.
              if other \<noteq> symb
              then Inr (correlation_risk + \<bar>get_correlation symb other\<bar>)
              else Inr correlation_risk))
          portfolio 0)
       (\<lambda>correlation_risk.
          Inr (if portfolio \<noteq> [] then correlation_risk / real (length portfolio) else 0))"

text \<open>
  The body of the loop of \<open>_analyze_positions\<close>.  \<open>ppf\<close> is \<open>scipy.stats.norm.ppf\<close>, the
  quantile function of the standard normal distribution, a parameter of the model.
\<close>

definition analyze_position ::
  "(real \<Rightarrow> real) \<Rightarrow> position list \<Rightarrow> position \<Rightarrow> position_analysis list \<Rightarrow>
   position_analysis list comp" where
  "analyze_position ppf portfolio p analysis =
     bind_st (lift_res (get_symbol p)) (\<lambda>symb.
     bind_st (lift_res (get_position p)) (\<lambda>psize.
     bind_st (lift_res (get_entry_price p)) (\<lambda>eprice.
     bind_st (lift_total (get_current_price symb eprice)) (\<lambda>cprice.
       let mvalue = \<bar>psize\<bar> * cprice;
           pnl = psize * (cprice - eprice);
           volatility = volatility_of symb;
           daily_volatility = volatility / sqrt 252;
           pvar = mvalue * daily_volatility * ppf 0.95;
           contribution = pvar / real (length portfolio)
       in bind_st (lift_res (calculate_position_correlation_risk symb portfolio)) (\<lambda>crisk.
          return_st (analysis @
            [\<lparr>pa_symbol = symb, pa_position = psize, pa_entry_price = eprice,
              current_price = cprice, market_value = mvalue, unrealized_pnl = pnl,
              position_var = pvar, risk_contribution = contribution,
              correlation_risk = crisk\<rparr>]))))))"

definition analyze_positions ::
  "(real \<Rightarrow> real) \<Rightarrow> position list \<Rightarrow> position_analysis list comp" where
  "analyze_positions ppf portfolio = fold_st (analyze_position ppf portfolio) portfolio []"

record portfolio_metrics =
  pm_net_exposure :: real
  pm_gross_exposure :: real
  pm_leverage :: real
  pm_long_exposure :: real
  pm_short_exposure :: real

definition calculate_portfolio_metrics :: "position_analysis list \<Rightarrow> portfolio_metrics" where
  "calculate_portfolio_metrics analysis =
     (let total_long_exposure = sum_list (map market_value (filter (\<lambda>a. pa_position a > 0) analysis));
          total_short_exposure = sum_list (map market_value (filter (\<lambda>a. pa_position a < 0) analysis));
          net = total_long_exposure - total_short_exposure;
          gross = total_long_exposure + total_short_exposure;
          account_balance = (10000 :: real);
          lev = (if account_balance > 0 then gross / account_balance else 0)
      in \<lparr>pm_net_exposure = net, pm_gross_exposure = gross, pm_leverage = lev,
          pm_long_exposure = total_long_exposure, pm_short_exposure = total_short_exposure\<rparr>)"

subsection \<open>Value at Risk\<close>

text \<open>One simulated day of \<open>_calculate_historical_var\<close>: the inner loop over the positions.\<close>

definition historical_day :: "position list \<Rightarrow> real comp" where
  "historical_day portfolio =
     fold_st (\<lambda>p daily_return.
       bind_st (lift_res (get_symbol p)) (\<lambda>symb.
       bind_st (lift_res (get_position p)) (\<lambda>psize.
       bind_st (lift_res (get_entry_price p)) (\<lambda>eprice.
       bind_st (lift_total (random_normal 0 (volatility_of symb / sqrt 252))) (\<lambda>random_return.
         return_st (daily_return + \<bar>psize\<bar> * eprice * random_return))))))
       portfolio 0"

definition calculate_historical_var_body :: "position list \<Rightarrow> int \<Rightarrow> real \<Rightarrow> real comp" where
  "calculate_historical_var_body portfolio timeframe_days confidence_level =
     bind_st (repeat_st 252 (\<lambda>portfolio_returns.
                bind_st (historical_day portfolio) (\<lambda>daily_return.
                  return_st (portfolio_returns @ [daily_return]))) [])
       (\<lambda>portfolio_returns.
          let scaled = map (\<lambda>r. r * sqrt (real_of_int timeframe_days)) portfolio_returns;
              var_percentile = (1 - confidence_level) * 100
          in bind_st (lift_res (np_percentile scaled var_percentile)) (\<lambda>var_estimate.
             return_st \<bar>var_estimate\<bar>))"

definition calculate_historical_var :: "position list \<Rightarrow> int \<Rightarrow> real \<Rightarrow> real total" where
  "calculate_historical_var portfolio timeframe_days confidence_level =
     try_except (calculate_historical_var_body portfolio timeframe_days confidence_level)
       (\<lambda>e. return_total 0.0)"

text \<open>
  The parametric method.  The first loop adds the variance of each position; the second,
  over all ordered pairs \<open>i \<noteq> j\<close>, adds \<open>2 * corr * vol1 * vol2 * value1 * value2\<close>.
\<close>

definition calculate_parametric_var_body ::
  "(real \<Rightarrow> real) \<Rightarrow> position list \<Rightarrow> int \<Rightarrow> real \<Rightarrow> error + real" where
  "calculate_parametric_var_body ppf portfolio timeframe_days confidence_level =
     bind_res
       (fold_res (\<lambda>p portfolio_variance.
            bind_res (get_symbol p) (\<lambda>symb.
            bind_res (get_position p) (\<lambda>psize.
            bind_res (get_entry_price p) (\<lambda>eprice.
              let pvalue = \<bar>psize\<bar> * eprice;
                  volatility = volatility_of symb;
                  daily_vol = volatility / sqrt 252;
                  position_variance = (pvalue * daily_vol)\<^sup>2
              in Inr (portfolio_variance + position_variance)))))
          portfolio 0)
       (\<lambda>portfolio_variance.
     bind_res
       (fold_res (\<lambda>(i, pos1) adj.
            fold_res (\<lambda>(j, pos2) adj.
                if i \<noteq> j
                then bind_res (get_symbol pos1) (\<lambda>symbol1.
                     bind_res (get_symbol pos2) (\<lambda>symbol2.
                       let corr = get_correlation symbol1 symbol2;
                           vol1 = volatility_of symbol1 / sqrt 252;
                           vol2 = volatility_of symbol2 / sqrt 252
                       in bind_res (position_value pos1) (\<lambda>value1.
                          bind_res (position_value pos2) (\<lambda>value2.
                            Inr (adj + 2 * corr * vol1 * vol2 * value1 * value2)))))
                else Inr adj)
              (enumerate 0 portfolio) adj)
          (enumerate 0 portfolio) 0)
       (\<lambda>correlation_adjustment.
          let portfolio_variance = portfolio_variance + correlation_adjustment;
              portfolio_std = sqrt (max 0 portfolio_variance);
              portfolio_std = portfolio_std * sqrt (real_of_int timeframe_days);
              z_score = ppf confidence_level
          in Inr (portfolio_std * z_score)))"

definition calculate_parametric_var ::
  "(real \<Rightarrow> real) \<Rightarrow> position list \<Rightarrow> int \<Rightarrow> real \<Rightarrow> real" where
  "calculate_parametric_var ppf portfolio timeframe_days confidence_level =
     try_except_res (calculate_parametric_var_body ppf portfolio timeframe_days confidence_level)
       (\<lambda>e. 0.0)"

subsection \<open>Correlated returns\<close>

text \<open>A matrix is the list of its rows; \<open>m[i, j] = v\<close> is \<open>set_entry\<close>.\<close>

definition eye :: "nat \<Rightarrow> real list list" where
  "eye n = map (\<lambda>i. map (\<lambda>j. if i = j then 1 else 0) [0..<n]) [0..<n]"

definition set_entry :: "real list list \<Rightarrow> nat \<Rightarrow> nat \<Rightarrow> real \<Rightarrow> real list list" where
  "set_entry m i j v = m[i := (m ! i)[j := v]]"

definition build_correlation_matrix :: "position list \<Rightarrow> error + real list list" where
  "build_correlation_matrix portfolio =
     (let n_positions = length portfolio
      in fold_res (\<lambda>i m.
           fold_res (\<lambda>j m.
               bind_res (get_symbol (portfolio ! i)) (\<lambda>symbol_i.
               bind_res (get_symbol (portfolio ! j)) (\<lambda>symbol_j.
                 let corr = get_correlation symbol_i symbol_j
                 in Inr (set_entry (set_entry m i j corr) j i corr))))
             [i + 1..<n_positions] m)
         [0..<n_positions] (eye n_positions))"

text \<open>\<open>chol_matrix @ independent_returns\<close>; shapes that do not fit are a ValueError.\<close>

definition matvec :: "real list list \<Rightarrow> real list \<Rightarrow> error + real list" where
  "matvec m v =
     (if list_all (\<lambda>row. length row = length v) m
      then Inr (map (\<lambda>row. sum_list (map2 (*) row v)) m)
      else Inl ValueError)"

text \<open>
  \<open>cholesky\<close> is \<open>np.linalg.cholesky\<close>, a parameter of the model: it returns the factor or
  raises LinAlgError when the matrix is not positive definite.  Only LinAlgError is caught
  by the inner \<open>except\<close>; the vector is then the independent draws.
\<close>

type_synonym factorizer = "real list list \<Rightarrow> error + real list list"

definition correlate :: "factorizer \<Rightarrow> real list list \<Rightarrow> real list \<Rightarrow> error + real list" where
  "correlate cholesky correlation_matrix independent_returns =
     (case cholesky correlation_matrix of
        Inr chol_matrix \<Rightarrow> matvec chol_matrix independent_returns
      | Inl LinAlgError \<Rightarrow> Inr independent_returns
      | Inl e \<Rightarrow> Inl e)"

definition scale_by_volatilities :: "position list \<Rightarrow> real list \<Rightarrow> error + real list" where
  "scale_by_volatilities portfolio correlated_returns =
     fold_res (\<lambda>(i, p) rs.
         bind_res (get_symbol p) (\<lambda>symb.
           let volatility = volatility_of symb;
               daily_vol = volatility / sqrt 252
           in bind_res (nth_res rs i) (\<lambda>r. Inr (rs[i := r * daily_vol]))))
       (enumerate 0 portfolio) correlated_returns"

definition generate_correlated_returns_body :: "factorizer \<Rightarrow> position list \<Rightarrow> real list comp" where
  "generate_correlated_returns_body cholesky portfolio =
     (let n_positions = length portfolio
      in bind_st (lift_res (build_correlation_matrix portfolio)) (\<lambda>correlation_matrix.
         bind_st (lift_total (random_normal_vec 0 1 n_positions)) (\<lambda>independent_returns.
         bind_st (lift_res (correlate cholesky correlation_matrix independent_returns))
           (\<lambda>correlated_returns.
         lift_res (scale_by_volatilities portfolio correlated_returns)))))"

definition generate_correlated_returns :: "factorizer \<Rightarrow> position list \<Rightarrow> real list total" where
  "generate_correlated_returns cholesky portfolio =
     try_except (generate_correlated_returns_body cholesky portfolio)
       (\<lambda>e. random_normal_vec 0 0.01 (length portfolio))"

text \<open>
  The sum over the positions that \<open>_calculate_monte_carlo_var\<close> and
  \<open>_simulate_portfolio_returns\<close> both compute from one vector of returns, each return
  multiplied by \<open>scale\<close> first.
\<close>

definition signed_pnl :: "position list \<Rightarrow> real list \<Rightarrow> real \<Rightarrow> error + real" where
  "signed_pnl portfolio returns scale =
     fold_res (\<lambda>(i, p) total.
         bind_res (get_position p) (\<lambda>psize.
         bind_res (get_entry_price p) (\<lambda>eprice.
         bind_res (nth_res returns i) (\<lambda>r.
           let scaled_return = r * scale;
               pvalue = \<bar>psize\<bar> * eprice;
               pnl = pvalue * scaled_return;
               pnl = (if psize < 0 then - pnl else pnl)
           in Inr (total + pnl)))))
       (enumerate 0 portfolio) 0"

definition monte_carlo_simulations :: nat where
  "monte_carlo_simulations = 10000"

definition calculate_monte_carlo_var_body ::
  "factorizer \<Rightarrow> position list \<Rightarrow> int \<Rightarrow> real \<Rightarrow> real comp" where
  "calculate_monte_carlo_var_body cholesky portfolio timeframe_days confidence_level =
     bind_st (repeat_st monte_carlo_simulations (\<lambda>sims.
                bind_st (lift_total (generate_correlated_returns cholesky portfolio))
                  (\<lambda>random_returns.
                bind_st (lift_res (signed_pnl portfolio random_returns
                                     (sqrt (real_of_int timeframe_days)))) (\<lambda>portfolio_pnl.
                  return_st (sims @ [portfolio_pnl])))) [])
       (\<lambda>sims.
          let var_percentile = (1 - confidence_level) * 100
          in bind_st (lift_res (np_percentile sims var_percentile)) (\<lambda>var_estimate.
             return_st \<bar>var_estimate\<bar>))"

definition calculate_monte_carlo_var ::
  "factorizer \<Rightarrow> position list \<Rightarrow> int \<Rightarrow> real \<Rightarrow> real total" where
  "calculate_monte_carlo_var cholesky portfolio timeframe_days confidence_level =
     try_except (calculate_monte_carlo_var_body cholesky portfolio timeframe_days confidence_level)
       (\<lambda>e. return_total 0.0)"

record var_results =
  vr_var :: real
  vr_expected_shortfall :: real
  vr_historical_var :: real
  vr_parametric_var :: real
  vr_monte_carlo_var :: real

definition calculate_var ::
  "(real \<Rightarrow> real) \<Rightarrow> factorizer \<Rightarrow> position list \<Rightarrow> int \<Rightarrow> real \<Rightarrow> var_results total" where
  "calculate_var ppf cholesky portfolio timeframe_days confidence_level g =
     (case calculate_historical_var portfolio timeframe_days confidence_level g of
        (historical_var, g1) \<Rightarrow>
     let parametric_var = calculate_parametric_var ppf portfolio timeframe_days confidence_level
     in case calculate_monte_carlo_var cholesky portfolio timeframe_days confidence_level g1 of
        (monte_carlo_var, g2) \<Rightarrow>
     let var_estimate = monte_carlo_var;
         expected_shortfall = var_estimate * 1.3
     in (\<lparr>vr_var = var_estimate, vr_expected_shortfall = expected_shortfall,
          vr_historical_var = historical_var, vr_parametric_var = parametric_var,
          vr_monte_carlo_var = monte_carlo_var\<rparr>, g2))"

subsection \<open>Risk ratios and recommendations\<close>

definition simulate_portfolio_returns_body ::
  "factorizer \<Rightarrow> position list \<Rightarrow> nat \<Rightarrow> real list comp" where
  "simulate_portfolio_returns_body cholesky portfolio days =
     repeat_st days (\<lambda>portfolio_returns.
        bind_st (lift_total (generate_correlated_returns cholesky portfolio))
          (\<lambda>correlated_returns.
        bind_st (lift_res (signed_pnl portfolio correlated_returns 1)) (\<lambda>daily_return.
          return_st (portfolio_returns @ [daily_return / 10000])))) []"

definition simulate_portfolio_returns ::
  "factorizer \<Rightarrow> position list \<Rightarrow> nat \<Rightarrow> real list total" where
  "simulate_portfolio_returns cholesky portfolio days =
     try_except (simulate_portfolio_returns_body cholesky portfolio days) (\<lambda>e. return_total [])"

record risk_ratios =
  rr_sharpe_ratio :: real
  rr_sortino_ratio :: real
  rr_calmar_ratio :: real
  rr_volatility_annual :: real
  rr_max_drawdown :: real

definition risk_free_rate :: real where
  "risk_free_rate = 0.02"

text \<open>\<open>np.cumprod\<close> and \<open>np.maximum.accumulate\<close>.\<close>

fun cumprod_from :: "real \<Rightarrow> real list \<Rightarrow> real list" where
  "cumprod_from acc [] = []"
| "cumprod_from acc (x # xs) = (acc * x) # cumprod_from (acc * x) xs"

fun running_max_from :: "real \<Rightarrow> real list \<Rightarrow> real list" where
  "running_max_from m [] = []"
| "running_max_from m (x # xs) = max m x # running_max_from (max m x) xs"

text \<open>
  The arithmetic of \<open>_calculate_risk_ratios\<close> on a non-empty series.  Where numpy divides
  by zero it yields inf or nan without raising; the quotient is then \<open>0\<close> here.
\<close>

definition risk_ratios_of :: "real list \<Rightarrow> risk_ratios" where
  "risk_ratios_of portfolio_returns =
     (let annual_return = np_mean portfolio_returns * 252;
          annual_volatility = np_std portfolio_returns * sqrt 252;
          sharpe = (if annual_volatility > 0
                    then (annual_return - risk_free_rate) / annual_volatility else 0);
          negative_returns = filter (\<lambda>r. r < 0) portfolio_returns;
          downside_deviation = (if length negative_returns > 0
                                then np_std negative_returns * sqrt 252
                                else annual_volatility);
          sortino = (if downside_deviation > 0
                     then (annual_return - risk_free_rate) / downside_deviation else 0);
          cumulative_returns = cumprod_from 1 (map (\<lambda>r. 1 + r) portfolio_returns);
          running_max = running_max_from (hd cumulative_returns) cumulative_returns;
          drawdowns = map2 (\<lambda>c m. (c - m) / m) cumulative_returns running_max;
          max_dd = \<bar>fold min (tl drawdowns) (hd drawdowns)\<bar> * 100;
          calmar = (if max_dd > 0 then annual_return / (max_dd / 100) else 0)
      in \<lparr>rr_sharpe_ratio = sharpe, rr_sortino_ratio = sortino, rr_calmar_ratio = calmar,
          rr_volatility_annual = annual_volatility, rr_max_drawdown = max_dd\<rparr>)"

definition calculate_risk_ratios ::
  "factorizer \<Rightarrow> position list \<Rightarrow> position_analysis list \<Rightarrow> risk_ratios total" where
  "calculate_risk_ratios cholesky portfolio analysis g =
     (case simulate_portfolio_returns cholesky portfolio 252 g of
        (portfolio_returns, g') \<Rightarrow>
          (if length portfolio_returns = 0
           then \<lparr>rr_sharpe_ratio = 0.0, rr_sortino_ratio = 0.0, rr_calmar_ratio = 0.0,
                 rr_volatility_annual = 0.0, rr_max_drawdown = 0.0\<rparr>
           else risk_ratios_of portfolio_returns, g'))"

definition generate_risk_recommendations ::
  "portfolio_metrics \<Rightarrow> var_results \<Rightarrow> risk_ratios \<Rightarrow> string list" where
  "generate_risk_recommendations metrics var_res ratios =
     (let recs = [];
          lev = pm_leverage metrics;
          recs = (if lev > 5
                  then recs @ [''Consider reducing leverage - current level is very high'']
                  else if lev > 3
                  then recs @ [''Monitor leverage levels - approaching high risk territory'']
                  else recs);
          var_amount = vr_var var_res;
          account_value = (10000 :: real);
          var_percentage = (var_amount / account_value) * 100;
          recs = (if var_percentage > 10
                  then recs @ [''Daily VaR exceeds 10% of account - consider reducing position sizes'']
                  else if var_percentage > 5
                  then recs @ [''Daily VaR is elevated - monitor risk closely'']
                  else recs);
          sharpe = rr_sharpe_ratio ratios;
          recs = (if sharpe < 0.5
                  then recs @ [''Risk-adjusted returns are low - review trading strategy'']
                  else if sharpe > 2
                  then recs @ [''Excellent risk-adjusted returns - maintain current strategy'']
                  else recs);
          max_dd = rr_max_drawdown ratios;
          recs = (if max_dd > 20
                  then recs @ [''Maximum drawdown is concerning - implement stricter stop losses'']
                  else recs);
          recs = (if length recs = 0
                  then recs @ [''Portfolio risk levels are within acceptable ranges'']
                  else recs)
      in recs)"

subsection \<open>The portfolio risk report\<close>

record risk_result =
  net_exposure :: real
  gross_exposure :: real
  leverage :: real
  var :: real
  expected_shortfall :: real
  max_drawdown :: real
  sharpe_ratio :: real
  sortino_ratio :: real
  calmar_ratio :: real
  volatility_annual :: real
  positions :: "position_analysis list"
  recommendations :: "string list"

definition get_empty_risk_result :: risk_result where
  "get_empty_risk_result =
     \<lparr>net_exposure = 0.0, gross_exposure = 0.0, leverage = 0.0, var = 0.0,
      expected_shortfall = 0.0, max_drawdown = 0.0, sharpe_ratio = 0.0, sortino_ratio = 0.0,
      calmar_ratio = 0.0, volatility_annual = 0.0, positions = [], recommendations = []\<rparr>"

text \<open>The body of the \<open>try\<close> of \<open>calculate_portfolio_risk\<close>.\<close>

definition calculate_portfolio_risk_body ::
  "(real \<Rightarrow> real) \<Rightarrow> factorizer \<Rightarrow> position list \<Rightarrow> string \<Rightarrow> real \<Rightarrow> risk_result comp" where
  "calculate_portfolio_risk_body ppf cholesky portfolio timeframe confidence_level =
     (if portfolio = [] then return_st get_empty_risk_result
      else
        let timeframe_days = convert_timeframe_to_days timeframe
        in bind_st (analyze_positions ppf portfolio) (\<lambda>analysis.
           let metrics = calculate_portfolio_metrics analysis
           in bind_st (lift_total (calculate_var ppf cholesky portfolio timeframe_days
                                    confidence_level)) (\<lambda>var_res.
              bind_st (lift_total (calculate_risk_ratios cholesky portfolio analysis))
                (\<lambda>ratios.
              let recs = generate_risk_recommendations metrics var_res ratios
              in return_st
                   \<lparr>net_exposure = pm_net_exposure metrics,
                    gross_exposure = pm_gross_exposure metrics,
                    leverage = pm_leverage metrics,
                    var = vr_var var_res,
                    expected_shortfall = vr_expected_shortfall var_res,
                    max_drawdown = rr_max_drawdown ratios,
                    sharpe_ratio = rr_sharpe_ratio ratios,
                    sortino_ratio = rr_sortino_ratio ratios,
                    calmar_ratio = rr_calmar_ratio ratios,
                    volatility_annual = rr_volatility_annual ratios,
                    positions = analysis,
                    recommendations = recs\<rparr>))))"

definition calculate_portfolio_risk ::
  "(real \<Rightarrow> real) \<Rightarrow> factorizer \<Rightarrow> position list \<Rightarrow> string \<Rightarrow> real \<Rightarrow> risk_result total" where
  "calculate_portfolio_risk ppf cholesky portfolio timeframe confidence_level =
     try_except (calculate_portfolio_risk_body ppf cholesky portfolio timeframe confidence_level)
       (\<lambda>e. return_total get_empty_risk_result)"

subsection \<open>Scenario analysis\<close>

text \<open>The entries of \<open>affected_positions\<close>, one shape per scenario.\<close>

datatype affected_position =
    CrashLoss string real real
  | VolatilityRisk string real string
  | ReversalLoss string real string
  | CorrelationImpact string string real

record scenario_result =
  probability :: real
  expected_loss :: real
  worst_case_loss :: real
  recovery_time :: int
  affected_positions :: "affected_position list"

definition get_empty_scenario_result :: scenario_result where
  "get_empty_scenario_result =
     \<lparr>probability = 0.0, expected_loss = 0.0, worst_case_loss = 0.0, recovery_time = 0,
      affected_positions = []\<rparr>"

definition scenario_market_crash_body :: "position list \<Rightarrow> error + scenario_result" where
  "scenario_market_crash_body portfolio =
     (let crash_severity = (- 0.40 :: real);
          crash_probability = (0.05 :: real)
      in bind_res
           (fold_res (\<lambda>p (total_loss, worst_case, affected).
                bind_res (get_symbol p) (\<lambda>symb.
                bind_res (get_position p) (\<lambda>psize.
                bind_res (get_entry_price p) (\<lambda>eprice.
                  let pvalue = \<bar>psize\<bar> * eprice;
                      loss = (if psize > 0 then pvalue * \<bar>crash_severity\<bar>
                              else pvalue * crash_severity);
                      worst_loss = loss * 1.5
                  in Inr (total_loss + loss, worst_case + worst_loss,
                          if loss > 0
                          then affected @ [CrashLoss symb loss (\<bar>crash_severity\<bar> * 100)]
                          else affected)))))
              portfolio (0, 0, []))
           (\<lambda>(total_loss, worst_case, affected).
              Inr \<lparr>probability = crash_probability, expected_loss = total_loss,
                   worst_case_loss = worst_case, recovery_time = 180,
                   affected_positions = affected\<rparr>))"

definition scenario_market_crash :: "position list \<Rightarrow> scenario_result" where
  "scenario_market_crash portfolio =
     try_except_res (scenario_market_crash_body portfolio) (\<lambda>e. get_empty_scenario_result)"

definition scenario_high_volatility_body :: "position list \<Rightarrow> error + scenario_result" where
  "scenario_high_volatility_body portfolio =
     (let volatility_multiplier = (2.5 :: real);
          scenario_probability = (0.15 :: real)
      in bind_res
           (fold_res (\<lambda>p (total_risk, worst_case, affected).
                bind_res (get_symbol p) (\<lambda>symb.
                bind_res (get_position p) (\<lambda>psize.
                bind_res (get_entry_price p) (\<lambda>eprice.
                  let pvalue = \<bar>psize\<bar> * eprice;
                      normal_volatility = volatility_of symb;
                      high_volatility = normal_volatility * volatility_multiplier;
                      daily_var = pvalue * (high_volatility / sqrt 252) * 1.65;
                      monthly_var = daily_var * sqrt 22
                  in Inr (total_risk + monthly_var, worst_case + monthly_var * 1.5,
                          affected @ [VolatilityRisk symb monthly_var ''150%''])))))
              portfolio (0, 0, []))
           (\<lambda>(total_risk, worst_case, affected).
              Inr \<lparr>probability = scenario_probability, expected_loss = total_risk,
                   worst_case_loss = worst_case, recovery_time = 60,
                   affected_positions = affected\<rparr>))"

definition scenario_high_volatility :: "position list \<Rightarrow> scenario_result" where
  "scenario_high_volatility portfolio =
     try_except_res (scenario_high_volatility_body portfolio) (\<lambda>e. get_empty_scenario_result)"

definition scenario_trend_reversal_body :: "position list \<Rightarrow> error + scenario_result" where
  "scenario_trend_reversal_body portfolio =
     (let reversal_magnitude = (0.20 :: real);
          scenario_probability = (0.25 :: real)
      in bind_res
           (fold_res (\<lambda>p (total_loss, worst_case, affected).
                bind_res (get_symbol p) (\<lambda>symb.
                bind_res (get_position p) (\<lambda>psize.
                bind_res (get_entry_price p) (\<lambda>eprice.
                  let pvalue = \<bar>psize\<bar> * eprice;
                      loss = pvalue * reversal_magnitude;
                      worst_loss = loss * 1.3
                  in Inr (total_loss + loss, worst_case + worst_loss,
                          affected @ [ReversalLoss symb loss ''20%''])))))
              portfolio (0, 0, []))
           (\<lambda>(total_loss, worst_case, affected).
              Inr \<lparr>probability = scenario_probability, expected_loss = total_loss,
                   worst_case_loss = worst_case, recovery_time = 90,
                   affected_positions = affected\<rparr>))"

definition scenario_trend_reversal :: "position list \<Rightarrow> scenario_result" where
  "scenario_trend_reversal portfolio =
     try_except_res (scenario_trend_reversal_body portfolio) (\<lambda>e. get_empty_scenario_result)"

text \<open>\<open>sum(abs(p['position']) * p['entry_price'] for p in portfolio)\<close>.\<close>

definition total_value :: "position list \<Rightarrow> error + real" where
  "total_value portfolio =
     fold_res (\<lambda>p total. bind_res (position_value p) (\<lambda>v. Inr (total + v))) portfolio 0"

definition calculate_portfolio_volatility_body :: "position list \<Rightarrow> bool \<Rightarrow> error + real" where
  "calculate_portfolio_volatility_body portfolio use_correlations =
     (if portfolio = [] then Inr 0.0
      else
        bind_res
          (fold_res (\<lambda>p portfolio_variance.
               bind_res (get_symbol p) (\<lambda>symb.
               bind_res (get_position p) (\<lambda>psize.
               bind_res (get_entry_price p) (\<lambda>eprice.
                 let pvalue = \<bar>psize\<bar> * eprice;
                     volatility = volatility_of symb
                 in bind_res (total_value portfolio) (\<lambda>total.
                    bind_res (py_div pvalue total) (\<lambda>weight.
                      Inr (portfolio_variance + (weight * volatility)\<^sup>2)))))))
             portfolio 0)
          (\<lambda>portfolio_variance.
        bind_res
          (if use_correlations \<and> length portfolio > 1
           then fold_res (\<lambda>(i, pos1) pv.
                  fold_res (\<lambda>(j, pos2) pv.
                      if i \<noteq> j
                      then bind_res (get_symbol pos1) (\<lambda>symbol1.
                           bind_res (get_symbol pos2) (\<lambda>symbol2.
                             let corr = get_correlation symbol1 symbol2;
                                 vol1 = volatility_of symbol1;
                                 vol2 = volatility_of symbol2
                             in bind_res (position_value pos1) (\<lambda>value1.
                                bind_res (position_value pos2) (\<lambda>value2.
                                bind_res (total_value portfolio) (\<lambda>total.
                                bind_res (py_div value1 total) (\<lambda>weight1.
                                bind_res (py_div value2 total) (\<lambda>weight2.
                                  Inr (pv + weight1 * weight2 * vol1 * vol2 * corr))))))))
                      else Inr pv)
                    (enumerate 0 portfolio) pv)
                  (enumerate 0 portfolio) portfolio_variance
           else Inr portfolio_variance)
          (\<lambda>portfolio_variance. Inr (sqrt (max 0 portfolio_variance)))))"

definition calculate_portfolio_volatility :: "position list \<Rightarrow> bool \<Rightarrow> real" where
  "calculate_portfolio_volatility portfolio use_correlations =
     try_except_res (calculate_portfolio_volatility_body portfolio use_correlations) (\<lambda>e. 0.0)"

definition scenario_correlation_breakdown_body :: "position list \<Rightarrow> error + scenario_result" where
  "scenario_correlation_breakdown_body portfolio =
     (let scenario_probability = (0.10 :: real);
          current_portfolio_vol = calculate_portfolio_volatility portfolio True;
          no_diversification_vol = calculate_portfolio_volatility portfolio False;
          diversification_loss = no_diversification_vol - current_portfolio_vol;
          account_value = (10000 :: real);
          loss = account_value * diversification_loss * 1.65;
          worst_case = loss * 2
      in bind_res
           (fold_res (\<lambda>pos affected.
                bind_res (get_symbol pos) (\<lambda>symb.
                  Inr (affected @ [CorrelationImpact symb ''High'' diversification_loss])))
              portfolio [])
           (\<lambda>affected.
              Inr \<lparr>probability = scenario_probability, expected_loss = loss,
                   worst_case_loss = worst_case, recovery_time = 120,
                   affected_positions = affected\<rparr>))"

definition scenario_correlation_breakdown :: "position list \<Rightarrow> scenario_result" where
  "scenario_correlation_breakdown portfolio =
     try_except_res (scenario_correlation_breakdown_body portfolio)
       (\<lambda>e. get_empty_scenario_result)"

text \<open>
  \<open>run_scenario_analysis\<close>: the result is a dict from scenario names to results.  Nothing
  in the loop can raise (every scenario catches its own exceptions), so the outer
  \<open>except\<close>, which would return the empty dict, is never entered.
\<close>

definition run_scenario_analysis ::
  "position list \<Rightarrow> string list \<Rightarrow> (string \<rightharpoonup> scenario_result)" where
  "run_scenario_analysis portfolio scenarios =
     fold (\<lambda>scenario_name scenario_results.
         if scenario_name = ''market_crash''
         then scenario_results(scenario_name \<mapsto> scenario_market_crash portfolio)
         else if scenario_name = ''high_volatility''
         then scenario_results(scenario_name \<mapsto> scenario_high_volatility portfolio)
         else if scenario_name = ''trend_reversal''
         then scenario_results(scenario_name \<mapsto> scenario_trend_reversal portfolio)
         else if scenario_name = ''correlation_breakdown''
         then scenario_results(scenario_name \<mapsto> scenario_correlation_breakdown portfolio)
         else scenario_results)
       scenarios Map.empty"

text \<open>
  A model of the factorization for the worked inputs: the Cholesky-Banachiewicz recurrence
  row by row, LinAlgError when a pivot is not positive.
\<close>

definition cholesky_row :: "real list list \<Rightarrow> real list \<Rightarrow> nat \<Rightarrow> nat \<Rightarrow> error + real list" where
  "cholesky_row L a i n =
     (let r = fold (\<lambda>j r. r @ [(a ! j - sum_list (map2 (*) r (take j (L ! j)))) / (L ! j ! j)])
                [0..<i] [];
          d = a ! i - sum_list (map2 (*) r r)
      in if d \<le> 0 then Inl LinAlgError
         else Inr (r @ [sqrt d] @ replicate (n - i - 1) 0))"

definition cholesky_factor :: factorizer where
  "cholesky_factor A =
     (let n = length A
      in if \<not> list_all (\<lambda>row. length row = n) A then Inl LinAlgError
         else fold_res (\<lambda>i L. bind_res (cholesky_row L (A ! i) i n) (\<lambda>r. Inr (L @ [r])))
                [0..<n] [])"

subsection \<open>Correlated returns in double arithmetic\<close>

text \<open>
  Whether the returned vector is finite is a question about IEEE doubles, where a result
  can be inf or nan.  This second model of \<open>_generate_correlated_returns\<close> keeps that: a
  value is a finite number, or it is not (\<open>NonFin\<close>: inf, -inf or nan).  A sum or product of
  finite numbers that leaves the range of doubles is \<open>NonFin\<close>, and so is every sum or
  product with a \<open>NonFin\<close> operand, as in IEEE arithmetic.  Rounding inside the range is not
  modelled.  A draw of the random source beyond the range counts as \<open>NonFin\<close>, and the
  factorization may return a factor with \<open>NonFin\<close> entries.
\<close>

datatype fval = Fin real | NonFin

definition max_float :: real where
  "max_float = (2 - 1 / 2 ^ 52) * 2 ^ 1023"

definition fl :: "real \<Rightarrow> fval" where
  "fl r = (if \<bar>r\<bar> \<le> max_float then Fin r else NonFin)"

fun fmul :: "fval \<Rightarrow> fval \<Rightarrow> fval" where
  "fmul (Fin x) (Fin y) = fl (x * y)"
| "fmul _ _ = NonFin"

fun fadd :: "fval \<Rightarrow> fval \<Rightarrow> fval" where
  "fadd (Fin x) (Fin y) = fl (x + y)"
| "fadd _ _ = NonFin"

type_synonym factorizer_fp = "real list list \<Rightarrow> error + fval list list"

text \<open>\<open>np.random.normal(loc, scale, n)\<close>: \<open>loc + scale * z\<close> for each of the next \<open>n\<close> draws.\<close>

definition random_normal_vec_fp :: "real \<Rightarrow> real \<Rightarrow> nat \<Rightarrow> fval list total" where
  "random_normal_vec_fp loc scale n g =
     (map (\<lambda>k. fadd (fl loc) (fmul (fl scale) (fl (g k)))) [0..<n], \<lambda>k. g (n + k))"

text \<open>\<open>volatility / np.sqrt(252)\<close>.\<close>

definition daily_vol_fp :: "string \<Rightarrow> fval" where
  "daily_vol_fp symb = fl (volatility_of symb / sqrt 252)"

text \<open>\<open>chol_matrix @ independent_returns\<close>, the products of a row summed from left to right.\<close>

definition matvec_fp :: "fval list list \<Rightarrow> fval list \<Rightarrow> error + fval list" where
  "matvec_fp m v =
     (if list_all (\<lambda>row. length row = length v) m
      then Inr (map (\<lambda>row. foldl fadd (Fin 0) (map2 fmul row v)) m)
      else Inl ValueError)"

definition correlate_fp ::
  "factorizer_fp \<Rightarrow> real list list \<Rightarrow> fval list \<Rightarrow> error + fval list" where
  "correlate_fp cholesky correlation_matrix independent_returns =
     (case cholesky correlation_matrix of
        Inr chol_matrix \<Rightarrow> matvec_fp chol_matrix independent_returns
      | Inl LinAlgError \<Rightarrow> Inr independent_returns
      | Inl e \<Rightarrow> Inl e)"

definition scale_by_volatilities_fp :: "position list \<Rightarrow> fval list \<Rightarrow> error + fval list" where
  "scale_by_volatilities_fp portfolio correlated_returns =
     fold_res (\<lambda>(i, p) rs.
         bind_res (get_symbol p) (\<lambda>symb.
         bind_res (nth_res rs i) (\<lambda>r. Inr (rs[i := fmul r (daily_vol_fp symb)]))))
       (enumerate 0 portfolio) correlated_returns"

definition generate_correlated_returns_fp_body ::
  "factorizer_fp \<Rightarrow> position list \<Rightarrow> fval list comp" where
  "generate_correlated_returns_fp_body cholesky portfolio =
     (let n_positions = length portfolio
      in bind_st (lift_res (build_correlation_matrix portfolio)) (\<lambda>correlation_matrix.
         bind_st (lift_total (random_normal_vec_fp 0 1 n_positions)) (\<lambda>independent_returns.
         bind_st (lift_res (correlate_fp cholesky correlation_matrix independent_returns))
           (\<lambda>correlated_returns.
         lift_res (scale_by_volatilities_fp portfolio correlated_returns)))))"

definition generate_correlated_returns_fp ::
  "factorizer_fp \<Rightarrow> position list \<Rightarrow> fval list total" where
  "generate_correlated_returns_fp cholesky portfolio =
     try_except (generate_correlated_returns_fp_body cholesky portfolio)
       (\<lambda>e. random_normal_vec_fp 0 0.01 (length portfolio))"

section \<open>Worked inputs\<close>

text \<open>A frame with a single doji candle and a volume column.\<close>

definition doji_frame :: data_frame where
  "doji_frame = \<lparr>rows = [\<lparr>timestamp = 0, open_price = 10, high_price = 10.5,
                           low_price = 9.5, close_price = 10.01\<rparr>],
                 volume = Some [1]\<rparr>"

text \<open>A frame with a single hammer candle.\<close>

definition hammer_frame :: data_frame where
  "hammer_frame = \<lparr>rows = [\<lparr>timestamp = 0, open_price = 10, high_price = 10.6,
                             low_price = 8, close_price = 10.5\<rparr>],
                   volume = Some [1]\<rparr>"

text \<open>A bearish candle followed by a bullish candle whose body contains the first body.\<close>

definition engulfing_frame :: data_frame where
  "engulfing_frame = \<lparr>rows = [\<lparr>timestamp = 0, open_price = 10, high_price = 10.2,
                                low_price = 8.9, close_price = 9\<rparr>,
                              \<lparr>timestamp = 1, open_price = 8.5, high_price = 11.1,
                                low_price = 8.4, close_price = 11\<rparr>],
                      volume = Some [1, 1]\<rparr>"

text \<open>
  Seven candles whose highs peak at rows 1, 3 and 5 (1999, 2001 and 3000) over flat lows.
  With \<open>eps = 0.001 * mean = 7/3\<close> the first two peaks are within \<open>eps\<close> of each other and
  form cluster 0; the third is noise.  \<open>strict_maxima\<close> and \<open>peak_labels\<close> give, on these
  series, what the two library routines return.
\<close>

definition flat_candle :: "int \<Rightarrow> real \<Rightarrow> candle" where
  "flat_candle t h = \<lparr>timestamp = t, open_price = 950, high_price = h,
                      low_price = 900, close_price = 950\<rparr>"

definition peaks_frame :: data_frame where
  "peaks_frame = \<lparr>rows = [flat_candle 0 1000, flat_candle 1 1999, flat_candle 2 1000,
                          flat_candle 3 2001, flat_candle 4 1000, flat_candle 5 3000,
                          flat_candle 6 1000],
                  volume = None\<rparr>"

definition strict_maxima :: peak_finder where
  "strict_maxima xs prominence =
     filter (\<lambda>i. xs ! (i - 1) < xs ! i \<and> xs ! (i + 1) < xs ! i) [1..<length xs - 1]"

definition peak_labels :: clusterer where
  "peak_labels eps min_samples xs = (if xs = [1999, 2001, 3000] then [0, 0, - 1] else [])"

text \<open>The claimed score, in the words of the specification: the confidence times a flat
  1.1 volume factor, a 1.0 context factor and a 1.0 completion factor, clamped to [0,1].\<close>

definition spec_reliability_score :: "pattern \<Rightarrow> real" where
  "spec_reliability_score p = max 0 (min 1 (confidence p * 1.1 * 1.0 * 1.0))"

text \<open>
  The z-scores the worked inputs are evaluated with: the standard normal quantiles at the
  levels 0.90, 0.95 and 0.99, to four decimals.
\<close>

definition z_table :: "real \<Rightarrow> real" where
  "z_table c = (if c = 0.90 then 1.2816 else if c = 0.95 then 1.6449
                else if c = 0.99 then 2.3263 else 0)"

text \<open>A long EURUSD and a short GBPUSD position; the two symbols have correlation 0.7.\<close>

definition two_pairs :: "position list" where
  "two_pairs = [mk_position ''EURUSD'' 1000 1.1, mk_position ''GBPUSD'' (- 500) 1.3]"

text \<open>A position dict without the \<open>position\<close> key.\<close>

definition no_size_position :: position where
  "no_size_position = \<lparr>symbol = Some ''EURUSD'', position_size = None, entry_price = Some 1.1\<rparr>"

text \<open>The correlation risk in the words of the specification: the mean of \<open>|corr(symbol,
  other)|\<close> over all other portfolio symbols.\<close>

definition spec_correlation_risk :: "string \<Rightarrow> string list \<Rightarrow> real" where
  "spec_correlation_risk symb symbols =
     (let others = filter (\<lambda>other. other \<noteq> symb) symbols
      in sum_list (map (\<lambda>other. \<bar>get_correlation symb other\<bar>) others) / real (length others))"

text \<open>Two positions in the same symbol: their correlation is 1.\<close>

definition same_symbol_pair :: "position list" where
  "same_symbol_pair = [mk_position ''EURUSD'' 1 1, mk_position ''EURUSD'' 1 1]"

text \<open>The factorization of the worked inputs, as a routine that returns doubles.\<close>

definition cholesky_factor_fp :: factorizer_fp where
  "cholesky_factor_fp A = (case cholesky_factor A of Inl e \<Rightarrow> Inl e
                           | Inr L \<Rightarrow> Inr (map (map fl) L))"

text \<open>A position dict without the \<open>symbol\<close> key.\<close>

definition no_symbol_position :: position where
  "no_symbol_position = \<lparr>symbol = None, position_size = Some 1, entry_price = Some 1\<rparr>"

text \<open>A bounded stream of draws: 1, -1/2, 1, -1/2, ...\<close>

definition alternating_draws :: rng where
  "alternating_draws k = (if even k then 1 else - 1 / 2)"

section \<open>Auxiliary notions\<close>

text \<open>A finite value of magnitude at most \<open>b\<close>.\<close>

definition bounded_fin :: "real \<Rightarrow> fval \<Rightarrow> bool" where
  "bounded_fin b x = (case x of Fin r \<Rightarrow> \<bar>r\<bar> \<le> b | NonFin \<Rightarrow> False)"

text \<open>The row that the position analyzer appends for a well-formed position, given the
  normal draw \<open>z\<close> it consumes.\<close>

definition analysis_row ::
  "(real \<Rightarrow> real) \<Rightarrow> position list \<Rightarrow> string \<Rightarrow> real \<Rightarrow> real \<Rightarrow> real \<Rightarrow> position_analysis" where
  "analysis_row ppf pf s q e z =
     (let cp = e * (1 + volatility_of s / sqrt 252 * z);
          mv = \<bar>q\<bar> * cp;
          pv = mv * (volatility_of s / sqrt 252) * ppf 0.95
      in \<lparr>pa_symbol = s, pa_position = q, pa_entry_price = e, current_price = cp,
          market_value = mv, unrealized_pnl = q * (cp - e), position_var = pv,
          risk_contribution = pv / real (length pf),
          correlation_risk =
            (\<Sum>p\<leftarrow>pf. if the (symbol p) \<noteq> s then \<bar>get_correlation s (the (symbol p))\<bar> else 0)
              / real (length pf)\<rparr>)"

text \<open>An \<open>n \<times> n\<close> matrix that is symmetric with unit diagonal.\<close>

definition matrix_ok :: "nat \<Rightarrow> real list list \<Rightarrow> bool" where
  "matrix_ok n m \<longleftrightarrow> length m = n \<and> (\<forall>i<n. length (m ! i) = n \<and> m ! i ! i = 1) \<and>
     (\<forall>i<n. \<forall>j<n. m ! i ! j = m ! j ! i)"

section \<open>Properties of the candlestick matchers\<close>

lemma in_concat_map_upt:
  "x \<in> set (concat (map f [a..<b])) \<longleftrightarrow> (\<exists>i. a \<le> i \<and> i < b \<and> x \<in> set (f i))"
  by auto

lemma hammer_fires_iff:
  "(''hammer'', i) \<in> pid ` set (detect_hammer data) \<longleftrightarrow>
     i < length (rows data) \<and>
     body_size (rows data ! i) > 0 \<and>
     lower_shadow (rows data ! i) > 2 * body_size (rows data ! i) \<and>
     upper_shadow (rows data ! i) < body_size (rows data ! i) \<and>
     lower_shadow (rows data ! i) > 0.6 * (high_price (rows data ! i) - low_price (rows data ! i))"
  unfolding detect_hammer_def image_iff Bex_def in_concat_map_upt
  by (auto simp: Let_def split: if_splits)

lemma shooting_star_fires_iff:
  "(''shooting_star'', i) \<in> pid ` set (detect_shooting_star data) \<longleftrightarrow>
     i < length (rows data) \<and>
     body_size (rows data ! i) > 0 \<and>
     upper_shadow (rows data ! i) > 2 * body_size (rows data ! i) \<and>
     lower_shadow (rows data ! i) < body_size (rows data ! i) \<and>
     upper_shadow (rows data ! i) > 0.6 * (high_price (rows data ! i) - low_price (rows data ! i))"
  unfolding detect_shooting_star_def image_iff Bex_def in_concat_map_upt
  by (auto simp: Let_def split: if_splits)

lemma shadows_body_range:
  "lower_shadow c + body_size c + upper_shadow c = high_price c - low_price c"
  by (simp add: lower_shadow_def body_size_def upper_shadow_def min_def max_def abs_if)

text \<open>
  Claim C9.  On no candle do the Hammer matcher and the Shooting Star matcher both fire:
  the lower shadow, the body and the upper shadow add up to the candle's range, and the two
  matchers cannot both emit a pattern for the same row index \<open>i\<close>.
\<close>

theorem hammer_shooting_star_exclusive:
  "lower_shadow (rows data ! i) + body_size (rows data ! i) + upper_shadow (rows data ! i)
     = high_price (rows data ! i) - low_price (rows data ! i) \<and>
   \<not> ((''hammer'', i) \<in> pid ` set (detect_hammer data) \<and>
      (''shooting_star'', i) \<in> pid ` set (detect_shooting_star data))"
proof -
  have "\<not> ((''hammer'', i) \<in> pid ` set (detect_hammer data) \<and>
      (''shooting_star'', i) \<in> pid ` set (detect_shooting_star data))"
    unfolding hammer_fires_iff shooting_star_fires_iff by linarith
  then show ?thesis using shadows_body_range by blast
qed

theorem hammer_shooting_star_exclusive_witness:
  "(''hammer'', 0) \<in> pid ` set (detect_hammer hammer_frame) \<and>
   (''shooting_star'', 0) \<notin> pid ` set (detect_shooting_star hammer_frame)"
  using hammer_shooting_star_exclusive[of hammer_frame 0]
  by (simp add: hammer_fires_iff hammer_frame_def body_size_def lower_shadow_def
      upper_shadow_def)

lemma engulfing_bullish_fires_iff:
  "(''bullish_engulfing'', i) \<in> pid ` set (detect_engulfing_bullish data) \<longleftrightarrow>
     1 \<le> i \<and> i < length (rows data) \<and>
     close_price (rows data ! (i - 1)) < open_price (rows data ! (i - 1)) \<and>
     close_price (rows data ! i) > open_price (rows data ! i) \<and>
     open_price (rows data ! i) < close_price (rows data ! (i - 1)) \<and>
     close_price (rows data ! i) > open_price (rows data ! (i - 1))"
  unfolding detect_engulfing_bullish_def image_iff Bex_def in_concat_map_upt
  by (auto simp: Let_def split: if_splits)

lemma engulfing_bearish_fires_iff:
  "(''bearish_engulfing'', i) \<in> pid ` set (detect_engulfing_bearish data) \<longleftrightarrow>
     1 \<le> i \<and> i < length (rows data) \<and>
     close_price (rows data ! (i - 1)) > open_price (rows data ! (i - 1)) \<and>
     close_price (rows data ! i) < open_price (rows data ! i) \<and>
     open_price (rows data ! i) > close_price (rows data ! (i - 1)) \<and>
     close_price (rows data ! i) < open_price (rows data ! (i - 1))"
  unfolding detect_engulfing_bearish_def image_iff Bex_def in_concat_map_upt
  by (auto simp: Let_def split: if_splits)

text \<open>
  Claim C5.  For the adjacent pair of rows \<open>i - 1\<close> and \<open>i\<close>, the Bullish Engulfing matcher
  emits its pattern exactly when the previous candle is bearish, the current candle is
  bullish, and the current body strictly contains the previous body; and the Bullish and
  the Bearish Engulfing matcher never both emit a pattern for the same pair.
\<close>

theorem engulfing_bullish_exact_and_exclusive:
  "((''bullish_engulfing'', i) \<in> pid ` set (detect_engulfing_bullish data) \<longleftrightarrow>
      1 \<le> i \<and> i < length (rows data) \<and>
      close_price (rows data ! (i - 1)) < open_price (rows data ! (i - 1)) \<and>
      close_price (rows data ! i) > open_price (rows data ! i) \<and>
      open_price (rows data ! i) < close_price (rows data ! (i - 1)) \<and>
      close_price (rows data ! i) > open_price (rows data ! (i - 1))) \<and>
   \<not> ((''bullish_engulfing'', i) \<in> pid ` set (detect_engulfing_bullish data) \<and>
      (''bearish_engulfing'', i) \<in> pid ` set (detect_engulfing_bearish data))"
proof -
  have "\<not> ((''bullish_engulfing'', i) \<in> pid ` set (detect_engulfing_bullish data) \<and>
      (''bearish_engulfing'', i) \<in> pid ` set (detect_engulfing_bearish data))"
    unfolding engulfing_bullish_fires_iff engulfing_bearish_fires_iff by linarith
  then show ?thesis using engulfing_bullish_fires_iff[of i data] by blast
qed

theorem engulfing_bullish_exact_and_exclusive_witness:
  "(''bullish_engulfing'', 1) \<in> pid ` set (detect_engulfing_bullish engulfing_frame) \<and>
   (''bearish_engulfing'', 1) \<notin> pid ` set (detect_engulfing_bearish engulfing_frame)"
  using engulfing_bullish_exact_and_exclusive[of 1 engulfing_frame]
  by (simp add: engulfing_frame_def)

section \<open>Properties of the reliability scores\<close>

lemma fold_upd_lookup:
  "fold (\<lambda>p m. m(f p \<mapsto> g p)) ps m0 k = Some s \<Longrightarrow>
     m0 k = Some s \<or> (\<exists>p\<in>set ps. f p = k \<and> s = g p)"
proof (induction ps arbitrary: m0)
  case Nil
  then show ?case by simp
next
  case (Cons a ps)
  from Cons.prems have "fold (\<lambda>p m. m(f p \<mapsto> g p)) ps (m0(f a \<mapsto> g a)) k = Some s"
    by (simp only: fold_simps o_apply)
  from Cons.IH[OF this] show ?case
    by (auto split: if_splits)
qed

lemma fold_upd_dom:
  "dom (fold (\<lambda>p m. m(f p \<mapsto> g p)) ps m0) = dom m0 \<union> f ` set ps"
  by (induction ps arbitrary: m0) (simp_all only: fold_simps o_apply dom_fun_upd, auto)

lemma calculate_reliability_dom:
  "dom (calculate_reliability data patterns) = pid ` set patterns"
  by (simp add: calculate_reliability_def fold_upd_dom)

lemma reliability_score_bounds:
  assumes "0 \<le> confidence p"
  shows "reliability_score data p \<le> confidence p * 1.1"
    and "0 \<le> reliability_score data p"
    and "reliability_score data p \<le> 1"
  using assms
  by (auto simp: reliability_score_def check_volume_confirmation_def
      analyze_market_context_def check_pattern_completion_def Let_def min_def)

text \<open>
  Claim C8.  For every list of patterns (each with a confidence that is not negative, as
  the data model of a pattern has it) and every price frame, every reliability score the
  scorer returns is the score of a pattern of the list with that id, is at most that
  pattern's raw confidence times 1.1, and lies in [0,1]; and every pattern of the list
  gets a score.
\<close>

theorem reliability_score_bounded:
  assumes "\<forall>p\<in>set patterns. 0 \<le> confidence p"
  shows "dom (calculate_reliability data patterns) = pid ` set patterns \<and>
    (\<forall>k s. calculate_reliability data patterns k = Some s \<longrightarrow>
       (\<exists>p\<in>set patterns. pid p = k \<and> s \<le> confidence p * 1.1 \<and> 0 \<le> s \<and> s \<le> 1))"
proof (intro conjI allI impI)
  show "dom (calculate_reliability data patterns) = pid ` set patterns"
    by (rule calculate_reliability_dom)
next
  fix k s
  assume "calculate_reliability data patterns k = Some s"
  then obtain p where p: "p \<in> set patterns" "pid p = k" "s = reliability_score data p"
    unfolding calculate_reliability_def by (auto dest: fold_upd_lookup)
  from assms p(1) have "0 \<le> confidence p" by blast
  from reliability_score_bounds[OF this, of data] p
  show "\<exists>p\<in>set patterns. pid p = k \<and> s \<le> confidence p * 1.1 \<and> 0 \<le> s \<and> s \<le> 1"
    by blast
qed

lemma detect_doji_doji_frame:
  "detect_doji doji_frame =
     [\<lparr>pid = (''doji'', 0), ptype = Candlestick, name = ''Doji'', start_time = 0, end_time = 0,
       confidence = 0.6, signal = Neutral, target_price = None, stop_loss = None,
       parameters = [(''body_ratio'', PNum 0.01), (''type'', PStr ''doji'')]\<rparr>]"
  by (simp add: detect_doji_def doji_frame_def body_size_def Let_def)

lemma volume_doji_frame: "volume doji_frame = Some [1]"
  by (simp add: doji_frame_def)

theorem reliability_score_bounded_witness:
  "dom (calculate_reliability doji_frame (detect_doji doji_frame)) = {(''doji'', 0)} \<and>
   (\<exists>p\<in>set (detect_doji doji_frame). pid p = (''doji'', 0) \<and>
      (612 / 1000 :: real) \<le> confidence p * 1.1 \<and> (612 / 1000 :: real) \<le> 1)"
proof -
  have h: "\<forall>p\<in>set (detect_doji doji_frame). 0 \<le> confidence p"
    by (simp add: detect_doji_doji_frame)
  have v: "calculate_reliability doji_frame (detect_doji doji_frame) (''doji'', 0)
             = Some (612 / 1000)"
    by (simp add: detect_doji_doji_frame calculate_reliability_def reliability_score_def
        check_volume_confirmation_def analyze_market_context_def
        check_pattern_completion_def volume_doji_frame)
  from reliability_score_bounded[OF h, of doji_frame] v show ?thesis
    by (auto simp: detect_doji_doji_frame)
qed

text \<open>
  Claim C2.  The scorer is claimed to multiply the confidence by a flat 1.1 volume factor.
  On the doji frame, which has a volume column, the detected doji has confidence 0.6; the
  scorer returns \<open>0.6 * (1 + 0.1 * 0.2) = 0.612\<close>, where the claimed policy gives 0.66.
\<close>

theorem reliability_volume_factor:
  "calculate_reliability doji_frame (detect_doji doji_frame) (''doji'', 0) = Some (612 / 1000) \<and>
   map spec_reliability_score (detect_doji doji_frame) = [66 / 100]"
  by (simp add: detect_doji_doji_frame calculate_reliability_def reliability_score_def
      check_volume_confirmation_def analyze_market_context_def
      check_pattern_completion_def volume_doji_frame spec_reliability_score_def)

section \<open>Properties of the level clustering\<close>

lemma cluster_levels_sound:
  assumes "(level, strength, touches) \<in> set (cluster_levels dbscan levels eps)"
  shows "2 \<le> touches \<and>
     (\<exists>cluster_id \<in> set (dbscan (eps * np_mean levels) 2 levels). cluster_id \<noteq> - 1 \<and>
        level = np_mean (cluster_points levels (dbscan (eps * np_mean levels) 2 levels) cluster_id) \<and>
        strength = real touches *
          np_std (cluster_points levels (dbscan (eps * np_mean levels) 2 levels) cluster_id) \<and>
        touches = length (cluster_points levels (dbscan (eps * np_mean levels) 2 levels) cluster_id))"
  using assms
  by (auto simp: cluster_levels_def Let_def split: if_splits)

lemma fold_append_mk:
  "p \<in> set (fold (\<lambda>lvl ps. ps @ [mk (length ps) t0 t1 lvl]) lvls ps0) \<Longrightarrow>
     p \<in> set ps0 \<or> (\<exists>n. \<exists>lvl \<in> set lvls. p = mk n t0 t1 lvl)"
proof (induction lvls arbitrary: ps0)
  case Nil
  then show ?case by simp
next
  case (Cons a lvls)
  from Cons.prems have "p \<in> set (fold (\<lambda>lvl ps. ps @ [mk (length ps) t0 t1 lvl]) lvls
       (ps0 @ [mk (length ps0) t0 t1 a]))"
    by (simp only: fold_simps o_apply)
  from Cons.IH[OF this] show ?case by auto
qed

lemma append_levels_sound:
  assumes "append_levels dbscan mk rs col idxs ps0 = Inr ps" and "p \<in> set ps"
  shows "p \<in> set ps0 \<or>
     (\<exists>levels n t0 t1. iloc col idxs = Inr levels \<and>
        (\<exists>lvl \<in> set (cluster_levels dbscan levels 0.001). p = mk n t0 t1 lvl))"
  using assms
  by (auto simp: append_levels_def bind_res_def split: if_splits sum.splits
      dest!: fold_append_mk)

lemma detect_support_resistance_sound:
  assumes "detect_support_resistance find_peaks dbscan data = Inr ps" and "p \<in> set ps"
  shows "\<exists>levels level strength touches.
           (iloc (map high_price (rows data))
              (find_significant_peaks find_peaks (map high_price (rows data)) 0.001) = Inr levels \<or>
            iloc (map low_price (rows data))
              (find_significant_valleys find_peaks (map low_price (rows data)) 0.001) = Inr levels) \<and>
           (level, strength, touches) \<in> set (cluster_levels dbscan levels 0.001) \<and>
           confidence p = min 0.9 (strength / 10) \<and>
           map_of (parameters p) ''level'' = Some (PNum level) \<and>
           map_of (parameters p) ''strength'' = Some (PNum strength) \<and>
           map_of (parameters p) ''touches'' = Some (PInt (int touches))"
proof -
  let ?highs = "find_significant_peaks find_peaks (map high_price (rows data)) 0.001"
  let ?lows = "find_significant_valleys find_peaks (map low_price (rows data)) 0.001"
  from assms(1) obtain ps1 where
    r: "append_levels dbscan resistance_pattern (rows data) (map high_price (rows data))
          ?highs [] = Inr ps1"
    and s: "append_levels dbscan support_pattern (rows data) (map low_price (rows data))
          ?lows ps1 = Inr ps"
    by (auto simp: detect_support_resistance_def Let_def bind_res_def split: sum.splits)
  from append_levels_sound[OF s assms(2)] show ?thesis
  proof
    assume "p \<in> set ps1"
    from append_levels_sound[OF r this] obtain levels n t0 t1 level strength touches where
      "iloc (map high_price (rows data)) ?highs = Inr levels"
      "(level, strength, touches) \<in> set (cluster_levels dbscan levels 0.001)"
      "p = resistance_pattern n t0 t1 (level, strength, touches)"
      by auto
    moreover from this have "confidence p = min 0.9 (strength / 10) \<and>
           map_of (parameters p) ''level'' = Some (PNum level) \<and>
           map_of (parameters p) ''strength'' = Some (PNum strength) \<and>
           map_of (parameters p) ''touches'' = Some (PInt (int touches))"
      by (simp add: resistance_pattern_def)
    ultimately show ?thesis by blast
  next
    assume "\<exists>levels n t0 t1. iloc (map low_price (rows data)) ?lows = Inr levels \<and>
        (\<exists>lvl \<in> set (cluster_levels dbscan levels 0.001). p = support_pattern n t0 t1 lvl)"
    then obtain levels n t0 t1 level strength touches where
      "iloc (map low_price (rows data)) ?lows = Inr levels"
      "(level, strength, touches) \<in> set (cluster_levels dbscan levels 0.001)"
      "p = support_pattern n t0 t1 (level, strength, touches)"
      by auto
    moreover from this have "confidence p = min 0.9 (strength / 10) \<and>
           map_of (parameters p) ''level'' = Some (PNum level) \<and>
           map_of (parameters p) ''strength'' = Some (PNum strength) \<and>
           map_of (parameters p) ''touches'' = Some (PInt (int touches))"
      by (simp add: support_pattern_def)
    ultimately show ?thesis by blast
  qed
qed

text \<open>
  Claim C7.  Whatever labels the clustering routine returns, every price level that
  \<open>cluster_levels\<close> emits has at least two touches, and it is built from the points of one
  cluster (a label other than the noise label): its level is their mean, its strength their
  number times their standard deviation, its touches their number.  Every pattern that
  \<open>detect_support_resistance\<close> returns comes from such a level of the clustered peak highs
  or valley lows, and its confidence is \<open>min 0.9 (strength / 10)\<close>.
\<close>

theorem cluster_levels_touches_and_confidence:
  "(\<forall>level strength touches.
      (level, strength, touches) \<in> set (cluster_levels dbscan levels eps) \<longrightarrow>
      2 \<le> touches \<and>
      (\<exists>cluster_id \<in> set (dbscan (eps * np_mean levels) 2 levels). cluster_id \<noteq> - 1 \<and>
         level = np_mean (cluster_points levels (dbscan (eps * np_mean levels) 2 levels) cluster_id) \<and>
         strength = real touches *
           np_std (cluster_points levels (dbscan (eps * np_mean levels) 2 levels) cluster_id) \<and>
         touches = length (cluster_points levels (dbscan (eps * np_mean levels) 2 levels) cluster_id))) \<and>
   (\<forall>ps p. detect_support_resistance find_peaks dbscan data = Inr ps \<and> p \<in> set ps \<longrightarrow>
      (\<exists>lvls level strength touches.
           (iloc (map high_price (rows data))
              (find_significant_peaks find_peaks (map high_price (rows data)) 0.001) = Inr lvls \<or>
            iloc (map low_price (rows data))
              (find_significant_valleys find_peaks (map low_price (rows data)) 0.001) = Inr lvls) \<and>
           (level, strength, touches) \<in> set (cluster_levels dbscan lvls 0.001) \<and>
           confidence p = min 0.9 (strength / 10) \<and>
           map_of (parameters p) ''level'' = Some (PNum level) \<and>
           map_of (parameters p) ''strength'' = Some (PNum strength) \<and>
           map_of (parameters p) ''touches'' = Some (PInt (int touches))))"
proof (intro conjI allI impI)
  fix level strength touches
  assume "(level, strength, touches) \<in> set (cluster_levels dbscan levels eps)"
  from cluster_levels_sound[OF this]
  show "2 \<le> touches"
    and "\<exists>cluster_id \<in> set (dbscan (eps * np_mean levels) 2 levels). cluster_id \<noteq> - 1 \<and>
         level = np_mean (cluster_points levels (dbscan (eps * np_mean levels) 2 levels) cluster_id) \<and>
         strength = real touches *
           np_std (cluster_points levels (dbscan (eps * np_mean levels) 2 levels) cluster_id) \<and>
         touches = length (cluster_points levels (dbscan (eps * np_mean levels) 2 levels) cluster_id)"
    by blast+
next
  fix ps p
  assume "detect_support_resistance find_peaks dbscan data = Inr ps \<and> p \<in> set ps"
  then have a: "detect_support_resistance find_peaks dbscan data = Inr ps" and b: "p \<in> set ps"
    by blast+
  from detect_support_resistance_sound[OF a b]
  show "\<exists>lvls level strength touches.
           (iloc (map high_price (rows data))
              (find_significant_peaks find_peaks (map high_price (rows data)) 0.001) = Inr lvls \<or>
            iloc (map low_price (rows data))
              (find_significant_valleys find_peaks (map low_price (rows data)) 0.001) = Inr lvls) \<and>
           (level, strength, touches) \<in> set (cluster_levels dbscan lvls 0.001) \<and>
           confidence p = min 0.9 (strength / 10) \<and>
           map_of (parameters p) ''level'' = Some (PNum level) \<and>
           map_of (parameters p) ''strength'' = Some (PNum strength) \<and>
           map_of (parameters p) ''touches'' = Some (PInt (int touches))" .
qed

lemma cluster_levels_peak_labels:
  "cluster_levels peak_labels [1999, 2001, 3000] eps = [(2000, 2, 2)]"
  by (simp add: cluster_levels_def peak_labels_def sorted_list_of_set_sort_remdups
      cluster_points_def np_mean_def np_std_def Let_def)

lemma detect_support_resistance_peaks_frame:
  "detect_support_resistance strict_maxima peak_labels peaks_frame
     = Inr [resistance_pattern 0 0 6 (2000, 2, 2)]"
  by (simp add: detect_support_resistance_def peaks_frame_def flat_candle_def
      find_significant_peaks_def find_significant_valleys_def strict_maxima_def
      append_levels_def iloc_def bind_res_def cluster_levels_peak_labels upt_rec Let_def)

theorem cluster_levels_touches_and_confidence_witness:
  "cluster_levels peak_labels [1999, 2001, 3000] 0.001 = [(2000, 2, 2)] \<and>
   detect_support_resistance strict_maxima peak_labels peaks_frame
     = Inr [resistance_pattern 0 0 6 (2000, 2, 2)] \<and>
   confidence (resistance_pattern 0 0 6 (2000, 2, 2)) = 0.2"
  using cluster_levels_touches_and_confidence[where dbscan = peak_labels
      and levels = "[1999, 2001, 3000]" and eps = "0.001" and find_peaks = strict_maxima
      and data = peaks_frame]
  by (simp add: cluster_levels_peak_labels detect_support_resistance_peaks_frame
      resistance_pattern_def)

section \<open>Properties of the risk calculation\<close>

lemma bind_res_simps [simp]:
  "bind_res (Inl e) f = Inl e" "bind_res (Inr x) f = f x"
  by (simp_all add: bind_res_def)

lemma bind_st_simps [simp]:
  "bind_st (return_st x) f = f x"
  "bind_st (lift_res (Inr x)) f = f x"
  "bind_st (lift_res (Inl e)) f = lift_res (Inl e)"
  by (auto simp: bind_st_def return_st_def lift_res_def)

lemma bind_st_apply:
  "m g = (Inr x, g') \<Longrightarrow> bind_st m f g = f x g'"
  "m g = (Inl e, g') \<Longrightarrow> bind_st m f g = (Inl e, g')"
  by (simp_all add: bind_st_def)

lemma try_except_apply:
  "m g = (Inr x, g') \<Longrightarrow> try_except m h g = (x, g')"
  "m g = (Inl e, g') \<Longrightarrow> try_except m h g = h e g'"
  by (simp_all add: try_except_def)

lemma calculate_portfolio_risk_cases:
  "(\<forall>e. fst (calculate_portfolio_risk_body ppf cholesky portfolio timeframe cl g) = Inl e \<longrightarrow>
        fst (calculate_portfolio_risk ppf cholesky portfolio timeframe cl g) = get_empty_risk_result) \<and>
   (\<forall>r. fst (calculate_portfolio_risk_body ppf cholesky portfolio timeframe cl g) = Inr r \<longrightarrow>
        fst (calculate_portfolio_risk ppf cholesky portfolio timeframe cl g) = r)"
  by (auto simp: calculate_portfolio_risk_def try_except_def return_total_def
      split: prod.splits sum.splits)

lemma calculate_portfolio_risk_empty:
  "calculate_portfolio_risk ppf cholesky [] timeframe cl g = (get_empty_risk_result, g)"
  by (simp add: calculate_portfolio_risk_def calculate_portfolio_risk_body_def
      try_except_def return_st_def)

(* failure characterisation *)

lemma fold_res_symbols_ok:
  assumes "\<forall>p\<in>set ps. symbol p \<noteq> None"
  shows "fold_res (\<lambda>p acc. bind_res (get_symbol p) (\<lambda>other. F other acc)) ps acc
     = fold_res (\<lambda>p acc. F (the (symbol p)) acc) ps acc"
  using assms by (induction ps arbitrary: acc) (auto simp: get_symbol_def bind_res_def split: sum.splits)

lemma correlation_risk_sum:
  "fold_res (\<lambda>p acc. if the (symbol p) \<noteq> s
              then Inr (acc + \<bar>get_correlation s (the (symbol p))\<bar>) else Inr acc) ps acc
     = Inr (acc + (\<Sum>p\<leftarrow>ps. if the (symbol p) \<noteq> s then \<bar>get_correlation s (the (symbol p))\<bar> else 0))"
  by (induction ps arbitrary: acc) auto

lemma correlation_risk_ok:
  assumes "\<forall>p\<in>set pf. symbol p \<noteq> None"
  shows "calculate_position_correlation_risk s pf =
     Inr (if pf \<noteq> [] then (\<Sum>p\<leftarrow>pf. if the (symbol p) \<noteq> s
                                  then \<bar>get_correlation s (the (symbol p))\<bar> else 0) / real (length pf)
          else 0)"
  unfolding calculate_position_correlation_risk_def
  by (simp add: fold_res_symbols_ok[OF assms, where F = "\<lambda>other acc. if other \<noteq> s
              then Inr (acc + \<bar>get_correlation s other\<bar>) else Inr acc"] correlation_risk_sum)

lemma correlation_risk_fails:
  assumes "\<exists>p\<in>set ps. symbol p = None"
  shows "\<exists>e. fold_res (\<lambda>p acc. bind_res (get_symbol p) (\<lambda>other. F other acc)) ps acc = Inl e"
  using assms
proof (induction ps arbitrary: acc)
  case Nil
  then show ?case by simp
next
  case (Cons a ps)
  show ?case
  proof (cases "symbol a")
    case None
    then show ?thesis by (simp add: get_symbol_def)
  next
    case (Some s)
    with Cons.prems have "\<exists>p\<in>set ps. symbol p = None" by auto
    from Cons.IH[OF this] Some show ?thesis
      by (cases "F s acc") (auto simp: get_symbol_def)
  qed
qed


lemma analyze_position_ok:
  assumes "\<forall>p\<in>set pf. symbol p \<noteq> None"
  shows "analyze_position ppf pf (mk_position s q e) acc g =
     (Inr (acc @ [analysis_row ppf pf s q e (g 0)]), \<lambda>k. g (Suc k))"
  by (simp add: analyze_position_def mk_position_def get_symbol_def get_position_def
      get_entry_price_def get_current_price_def random_normal_def lift_total_def
      bind_st_def lift_res_def return_st_def correlation_risk_ok[OF assms] analysis_row_def
      Let_def)

lemma analyze_positions_loop:
  assumes "\<forall>p\<in>set pf. symbol p \<noteq> None"
  shows "fold_st (analyze_position ppf pf) (map (\<lambda>(s, q, e). mk_position s q e) ws) acc g =
     (Inr (acc @ map (\<lambda>(k, (s, q, e)). analysis_row ppf pf s q e (g k)) (enumerate 0 ws)),
      \<lambda>k. g (length ws + k))"
proof (induction ws arbitrary: acc g)
  case Nil
  then show ?case by (simp add: return_st_def)
next
  case (Cons w ws)
  obtain s q e where w: "w = (s, q, e)" by (cases w)
  have "map (\<lambda>(k, (s, q, e)). analysis_row ppf pf s q e (g (Suc k))) (enumerate 0 ws)
      = map (\<lambda>(k, (s, q, e)). analysis_row ppf pf s q e (g k)) (enumerate (Suc 0) ws)"
    by (simp add: enumerate_Suc_eq[of 0] split_def)
  then show ?case
    by (simp add: w bind_st_apply(1)[OF analyze_position_ok[OF assms]] Cons.IH)
qed

lemma well_formed_iff: "well_formed p \<longleftrightarrow> (\<exists>s q e. p = mk_position s q e)"
proof
  assume "well_formed p"
  then obtain s q e where "symbol p = Some s" "position_size p = Some q" "entry_price p = Some e"
    by (auto simp: well_formed_def)
  then have "p = mk_position s q e" by (simp add: mk_position_def)
  then show "\<exists>s q e. p = mk_position s q e" by blast
next
  assume "\<exists>s q e. p = mk_position s q e"
  then show "well_formed p" by (auto simp: well_formed_def mk_position_def)
qed

lemma well_formed_list:
  assumes "list_all well_formed pf"
  shows "\<exists>ws. pf = map (\<lambda>(s, q, e). mk_position s q e) ws"
  using assms
proof (induction pf)
  case Nil
  then show ?case by simp
next
  case (Cons p pf)
  then obtain ws s q e where "pf = map (\<lambda>(s, q, e). mk_position s q e) ws" "p = mk_position s q e"
    by (auto simp: well_formed_iff)
  then have "p # pf = map (\<lambda>(s, q, e). mk_position s q e) ((s, q, e) # ws)" by simp
  then show ?case by (rule exI)
qed

lemma analyze_position_Inr_wf:
  assumes "fst (analyze_position ppf pf a acc g) = Inr x"
  shows "well_formed a"
  using assms
  by (cases "symbol a"; cases "position_size a"; cases "entry_price a")
    (simp_all add: analyze_position_def get_symbol_def get_position_def get_entry_price_def
      lift_res_def bind_st_def well_formed_def)

lemma analyze_positions_fails:
  assumes "\<exists>p\<in>set xs. \<not> well_formed p"
  shows "\<exists>e. fst (fold_st (analyze_position ppf pf) xs acc g) = Inl e"
  using assms
proof (induction xs arbitrary: acc g)
  case Nil
  then show ?case by simp
next
  case (Cons a xs)
  obtain r g' where r: "analyze_position ppf pf a acc g = (r, g')" by (cases "analyze_position ppf pf a acc g")
  show ?case
  proof (cases r)
    case (Inl e)
    with r show ?thesis by (simp add: bind_st_def)
  next
    case (Inr x)
    with r have "well_formed a" using analyze_position_Inr_wf[of ppf pf a acc g x] by simp
    with Cons.prems have "\<exists>p\<in>set xs. \<not> well_formed p" by auto
    from Cons.IH[OF this, of x g'] r Inr show ?thesis by (simp add: bind_st_def)
  qed
qed

lemma calculate_portfolio_risk_body_fails_iff:
  "(\<exists>e. fst (calculate_portfolio_risk_body ppf cholesky portfolio timeframe cl g) = Inl e)
     \<longleftrightarrow> portfolio \<noteq> [] \<and> \<not> list_all well_formed portfolio"
proof (cases "portfolio = []")
  case True
  then show ?thesis by (simp add: calculate_portfolio_risk_body_def return_st_def)
next
  case False
  show ?thesis
  proof (cases "list_all well_formed portfolio")
    case True
    then obtain ws where ws: "portfolio = map (\<lambda>(s, q, e). mk_position s q e) ws"
      using well_formed_list by blast
    from True have sy: "\<forall>p\<in>set portfolio. symbol p \<noteq> None"
      by (auto simp: list_all_iff well_formed_def)
    have "\<exists>a g'. analyze_positions ppf portfolio g = (Inr a, g')"
      unfolding analyze_positions_def
      using analyze_positions_loop[OF sy, of ppf ws "[]" g] ws by simp
    then obtain a g' where a: "analyze_positions ppf portfolio g = (Inr a, g')" by blast
    have "\<exists>r. fst (calculate_portfolio_risk_body ppf cholesky portfolio timeframe cl g) = Inr r"
      using False
      by (simp add: calculate_portfolio_risk_body_def Let_def a
          bind_st_def lift_total_def return_st_def split: prod.splits)
    with True False show ?thesis by auto
  next
    case nwf: False
    then have "\<exists>p\<in>set portfolio. \<not> well_formed p" by (simp add: list_all_iff)
    from analyze_positions_fails[OF this, of ppf portfolio "[]" g]
    obtain e where "fst (analyze_positions ppf portfolio g) = Inl e"
      unfolding analyze_positions_def by blast
    then have "fst (calculate_portfolio_risk_body ppf cholesky portfolio timeframe cl g) = Inl e"
      using False
      by (auto simp: calculate_portfolio_risk_body_def Let_def bind_st_def split: prod.splits)
    with False nwf show ?thesis by blast
  qed
qed


text \<open>
  Claim C3, as the code has it.  For a portfolio of \<open>n\<close> well-formed positions and the
  position at index \<open>i\<close> (symbol \<open>s\<close>, size \<open>q\<close>, entry price \<open>e\<close>), the analyzer computes:
  the current price \<open>e * (1 + draw)\<close> with the \<open>i\<close>-th normal draw scaled by the daily
  volatility; market value \<open>|q| * current_price\<close>; unrealized P&L
  \<open>q * (current_price - e)\<close>; position VaR \<open>market_value * (annual_vol / sqrt 252) * ppf 0.95\<close>;
  risk contribution \<open>position_var / n\<close>; and correlation risk the sum of \<open>|corr(s, s')|\<close> over
  the positions whose symbol \<open>s'\<close> differs from \<open>s\<close>, divided by the portfolio size \<open>n\<close>.
\<close>

theorem analyze_positions_fields:
  assumes "portfolio = map (\<lambda>(s, q, e). mk_position s q e) ws"
    and "i < length ws" and "ws ! i = (s, q, e)"
  shows "\<exists>analysis. fst (analyze_positions ppf portfolio g) = Inr analysis \<and>
     length analysis = length ws \<and>
     current_price (analysis ! i) = e * (1 + volatility_of s / sqrt 252 * g i) \<and>
     market_value (analysis ! i) = \<bar>q\<bar> * current_price (analysis ! i) \<and>
     unrealized_pnl (analysis ! i) = q * (current_price (analysis ! i) - e) \<and>
     position_var (analysis ! i) =
       market_value (analysis ! i) * (volatility_of s / sqrt 252) * ppf 0.95 \<and>
     risk_contribution (analysis ! i) = position_var (analysis ! i) / real (length ws) \<and>
     correlation_risk (analysis ! i) =
       (\<Sum>(s', q', e')\<leftarrow>ws. if s' \<noteq> s then \<bar>get_correlation s s'\<bar> else 0) / real (length ws)"
proof -
  have sy: "\<forall>p\<in>set portfolio. symbol p \<noteq> None"
    by (auto simp: assms(1) mk_position_def)
  define analysis where
    "analysis = map (\<lambda>(k, (s, q, e)). analysis_row ppf portfolio s q e (g k)) (enumerate 0 ws)"
  have r: "fst (analyze_positions ppf portfolio g) = Inr analysis"
    unfolding analyze_positions_def analysis_def
    using analyze_positions_loop[OF sy, of ppf ws "[]" g] assms(1) by simp
  have n: "analysis ! i = analysis_row ppf portfolio s q e (g i)"
    using assms(2,3) by (simp add: analysis_def nth_enumerate_eq)
  have c: "(\<Sum>p\<leftarrow>portfolio. if the (symbol p) \<noteq> s
              then \<bar>get_correlation s (the (symbol p))\<bar> else 0)
       = (\<Sum>(s', q', e')\<leftarrow>ws. if s' \<noteq> s then \<bar>get_correlation s s'\<bar> else 0)"
    by (simp add: assms(1) comp_def split_def mk_position_def cong: if_cong)
  have l: "length portfolio = length ws" by (simp add: assms(1))
  have "length analysis = length ws" by (simp add: analysis_def)
  with r n c l show ?thesis
    by (intro exI[of _ analysis]) (simp add: analysis_row_def Let_def)
qed

theorem analyze_positions_fields_witness:
  "\<exists>analysis. fst (analyze_positions z_table two_pairs (\<lambda>k. 0)) = Inr analysis \<and>
     length analysis = 2 \<and>
     current_price (analysis ! 0) = 11 / 10 \<and>
     market_value (analysis ! 0) = 1100 \<and>
     unrealized_pnl (analysis ! 0) = 0 \<and>
     correlation_risk (analysis ! 0) = 7 / 20"
proof -
  from analyze_positions_fields[of two_pairs "[(''EURUSD'', 1000, 11 / 10), (''GBPUSD'', - 500, 13 / 10)]"
      0 "''EURUSD''" 1000 "11 / 10" z_table "\<lambda>k. 0"]
  obtain analysis where "fst (analyze_positions z_table two_pairs (\<lambda>k. 0)) = Inr analysis"
    "length analysis = 2" "current_price (analysis ! 0) = 11 / 10"
    "market_value (analysis ! 0) = \<bar>1000\<bar> * current_price (analysis ! 0)"
    "unrealized_pnl (analysis ! 0) = 1000 * (current_price (analysis ! 0) - 11 / 10)"
    "correlation_risk (analysis ! 0) = 7 / 20"
    by (auto simp: two_pairs_def get_correlation_def default_correlations_def)
  then show ?thesis by (intro exI[of _ analysis]) simp
qed

lemma two_pairs_analysis:
  "fst (analyze_positions ppf two_pairs g) =
     Inr [analysis_row ppf two_pairs ''EURUSD'' 1000 (11 / 10) (g 0),
          analysis_row ppf two_pairs ''GBPUSD'' (- 500) (13 / 10) (g 1)]"
proof -
  have sy: "\<forall>p\<in>set two_pairs. symbol p \<noteq> None"
    by (simp add: two_pairs_def mk_position_def)
  have eq: "map (\<lambda>(s, q, e). mk_position s q e)
      [(''EURUSD'', 1000, 11 / 10), (''GBPUSD'', - 500, 13 / 10)] = two_pairs"
    by (simp add: two_pairs_def)
  from analyze_positions_loop[OF sy, of ppf
      "[(''EURUSD'', 1000, 11 / 10), (''GBPUSD'', - 500, 13 / 10)]" "[]" g, unfolded eq]
  show ?thesis by (simp add: analyze_positions_def enumerate_eq_zip upt_rec)
qed

text \<open>
  Counterexample to claim C3 as stated: in the portfolio of one EURUSD and one GBPUSD
  position, whose correlation is 0.7, the analyzer reports the correlation risk 0.35 for
  both positions (0.7 divided by the portfolio size 2), where the mean over the one other
  symbol is 0.7.
\<close>

theorem correlation_risk_counterexample:
  "(case fst (analyze_positions z_table two_pairs (\<lambda>k. 0)) of
      Inr analysis \<Rightarrow> map correlation_risk analysis | Inl e \<Rightarrow> []) = [7 / 20, 7 / 20] \<and>
   spec_correlation_risk ''EURUSD'' [''EURUSD'', ''GBPUSD''] = 7 / 10 \<and>
   spec_correlation_risk ''GBPUSD'' [''EURUSD'', ''GBPUSD''] = 7 / 10"
  unfolding two_pairs_analysis
  by (simp add: analysis_row_def two_pairs_def mk_position_def
      spec_correlation_risk_def get_correlation_def default_correlations_def Let_def)

text \<open>
  Claim C6.  On the empty portfolio \<open>calculate_portfolio_risk\<close> returns the all-zero
  structure with empty position and recommendation lists.  For every portfolio, timeframe
  and random source it returns a risk structure: when the body of its \<open>try\<close> raises, the
  all-zero structure, otherwise what the body computed.  The body raises exactly when the
  portfolio is not empty and one of its positions lacks a key.
\<close>

theorem calculate_portfolio_risk_never_raises:
  "fst (calculate_portfolio_risk ppf cholesky [] timeframe cl g) = get_empty_risk_result \<and>
   get_empty_risk_result =
     \<lparr>net_exposure = 0, gross_exposure = 0, leverage = 0, var = 0, expected_shortfall = 0,
      max_drawdown = 0, sharpe_ratio = 0, sortino_ratio = 0, calmar_ratio = 0,
      volatility_annual = 0, positions = [], recommendations = []\<rparr> \<and>
   (\<forall>e. fst (calculate_portfolio_risk_body ppf cholesky portfolio timeframe cl g) = Inl e \<longrightarrow>
        fst (calculate_portfolio_risk ppf cholesky portfolio timeframe cl g) = get_empty_risk_result) \<and>
   (\<forall>r. fst (calculate_portfolio_risk_body ppf cholesky portfolio timeframe cl g) = Inr r \<longrightarrow>
        fst (calculate_portfolio_risk ppf cholesky portfolio timeframe cl g) = r) \<and>
   ((\<exists>e. fst (calculate_portfolio_risk_body ppf cholesky portfolio timeframe cl g) = Inl e)
      \<longleftrightarrow> portfolio \<noteq> [] \<and> \<not> list_all well_formed portfolio)"
  using calculate_portfolio_risk_cases[of ppf cholesky portfolio timeframe cl g]
    calculate_portfolio_risk_body_fails_iff[of ppf cholesky portfolio timeframe cl g]
  by (simp add: calculate_portfolio_risk_empty get_empty_risk_result_def)

theorem calculate_portfolio_risk_never_raises_witness:
  "fst (calculate_portfolio_risk_body z_table cholesky_factor [no_size_position] ''1d'' 0.95 (\<lambda>k. 0))
     = Inl (KeyError ''position'') \<and>
   fst (calculate_portfolio_risk z_table cholesky_factor [no_size_position] ''1d'' 0.95 (\<lambda>k. 0))
     = get_empty_risk_result"
proof -
  have b: "fst (calculate_portfolio_risk_body z_table cholesky_factor [no_size_position] ''1d''
      0.95 (\<lambda>k. 0)) = Inl (KeyError ''position'')"
    by (simp add: calculate_portfolio_risk_body_def analyze_positions_def analyze_position_def
        no_size_position_def get_symbol_def get_position_def lift_res_def bind_st_def Let_def)
  with calculate_portfolio_risk_never_raises[of z_table cholesky_factor "''1d''" "0.95" "\<lambda>k. 0"
      "[no_size_position]"]
  show ?thesis by simp
qed


lemma run_scenario_dom_aux:
  "dom (fold (\<lambda>scenario_name scenario_results.
         if scenario_name = ''market_crash''
         then scenario_results(scenario_name \<mapsto> a)
         else if scenario_name = ''high_volatility''
         then scenario_results(scenario_name \<mapsto> b)
         else if scenario_name = ''trend_reversal''
         then scenario_results(scenario_name \<mapsto> c)
         else if scenario_name = ''correlation_breakdown''
         then scenario_results(scenario_name \<mapsto> d)
         else scenario_results) scenarios m0)
   = dom m0 \<union> (set scenarios \<inter>
       {''market_crash'', ''high_volatility'', ''trend_reversal'', ''correlation_breakdown''})"
proof (induction scenarios arbitrary: m0)
  case Nil
  then show ?case by simp
next
  case (Cons x xs)
  show ?case
    apply (simp only: fold_simps o_apply Cons.IH)
    apply (auto split: if_splits)
    done
qed

text \<open>
  Claim C10.  For every portfolio and every list of requested names,
  \<open>run_scenario_analysis\<close> returns a map (it has no failing result) whose keys are exactly
  the requested names among the four known scenarios; other names leave no entry.
\<close>

theorem run_scenario_analysis_keys:
  "dom (run_scenario_analysis portfolio scenarios) =
     set scenarios \<inter>
       {''market_crash'', ''high_volatility'', ''trend_reversal'', ''correlation_breakdown''}"
  unfolding run_scenario_analysis_def run_scenario_dom_aux by simp

lemmas position_simps = mk_position_def get_symbol_def get_position_def get_entry_price_def
  position_value_def

lemma get_correlation_same [simp]: "get_correlation s s = 1"
  by (simp add: get_correlation_def)

lemma parametric_var_two_same_symbol:
  "calculate_parametric_var ppf [mk_position s q1 e1, mk_position s q2 e2] T c =
     sqrt (max 0 ((\<bar>q1\<bar> * e1)\<^sup>2 + (\<bar>q2\<bar> * e2)\<^sup>2 + 4 * (\<bar>q1\<bar> * e1) * (\<bar>q2\<bar> * e2)))
       * (volatility_of s / sqrt 252) * sqrt (real_of_int T) * ppf c"
proof -
  define d where "d = volatility_of s / sqrt 252"
  define v1 where "v1 = \<bar>q1\<bar> * e1"
  define v2 where "v2 = \<bar>q2\<bar> * e2"
  have d0: "0 \<le> d"
    by (simp add: d_def volatility_of_def default_volatilities_def)
  have "calculate_parametric_var ppf [mk_position s q1 e1, mk_position s q2 e2] T c =
      sqrt (max 0 ((v1 * d)\<^sup>2 + (v2 * d)\<^sup>2 + (2 * 1 * d * d * v1 * v2 + 2 * 1 * d * d * v2 * v1)))
        * sqrt (real_of_int T) * ppf c"
    by (simp add: calculate_parametric_var_def calculate_parametric_var_body_def position_simps
        try_except_res_def enumerate_eq_zip upt_rec d_def v1_def v2_def Let_def)
  also have "(v1 * d)\<^sup>2 + (v2 * d)\<^sup>2 + (2 * 1 * d * d * v1 * v2 + 2 * 1 * d * d * v2 * v1)
      = (v1\<^sup>2 + v2\<^sup>2 + 4 * v1 * v2) * d\<^sup>2"
    by (simp add: power2_eq_square algebra_simps)
  also have "max 0 ((v1\<^sup>2 + v2\<^sup>2 + 4 * v1 * v2) * d\<^sup>2) = max 0 (v1\<^sup>2 + v2\<^sup>2 + 4 * v1 * v2) * d\<^sup>2"
    by (simp add: max_def mult_le_0_iff zero_le_mult_iff)
  also have "sqrt (max 0 (v1\<^sup>2 + v2\<^sup>2 + 4 * v1 * v2) * d\<^sup>2) = sqrt (max 0 (v1\<^sup>2 + v2\<^sup>2 + 4 * v1 * v2)) * d"
    using d0 by (simp add: real_sqrt_mult)
  finally show ?thesis by (simp add: d_def v1_def v2_def)
qed

lemma parametric_var_single:
  "calculate_parametric_var ppf [mk_position s q e] T c =
     \<bar>\<bar>q\<bar> * e\<bar> * (volatility_of s / sqrt 252) * sqrt (real_of_int T) * ppf c"
proof -
  have d0: "0 \<le> volatility_of s / sqrt 252"
    by (simp add: volatility_of_def default_volatilities_def)
  have "calculate_parametric_var ppf [mk_position s q e] T c =
      sqrt (max 0 ((\<bar>q\<bar> * e * (volatility_of s / sqrt 252))\<^sup>2)) * sqrt (real_of_int T) * ppf c"
    by (simp add: calculate_parametric_var_def calculate_parametric_var_body_def position_simps
        try_except_res_def enumerate_eq_zip upt_rec Let_def)
  also have "sqrt (max 0 ((\<bar>q\<bar> * e * (volatility_of s / sqrt 252))\<^sup>2))
      = \<bar>\<bar>q\<bar> * e * (volatility_of s / sqrt 252)\<bar>"
    by simp
  also have "\<dots> = \<bar>\<bar>q\<bar> * e\<bar> * (volatility_of s / sqrt 252)"
    using d0 by (simp only: abs_mult abs_of_nonneg)
  finally show ?thesis .
qed

text \<open>
  Claim C1.  Two positions in one symbol have pairwise correlation 1.0.  For two EURUSD
  positions of value 1 each the parametric VaR is \<open>sqrt 6\<close> times the daily volatility
  times the z-score, because the covariance term \<open>2 * corr * vol1 * vol2 * value1 * value2\<close>
  is added for both ordered pairs; for the single position of value 2 it is \<open>2\<close> times that.
  The two differ whenever the z-score is not zero.
\<close>

theorem parametric_var_not_additive:
  "calculate_parametric_var ppf [mk_position ''EURUSD'' 1 1, mk_position ''EURUSD'' 1 1] 1 c
     = sqrt 6 * (0.08 / sqrt 252) * ppf c \<and>
   calculate_parametric_var ppf [mk_position ''EURUSD'' 2 1] 1 c
     = 2 * (0.08 / sqrt 252) * ppf c \<and>
   sqrt 6 \<noteq> 2"
proof -
  have "sqrt 6 \<noteq> 2"
  proof
    assume "sqrt 6 = 2"
    then have "(sqrt 6)\<^sup>2 = 2\<^sup>2" by simp
    then show False by simp
  qed
  moreover have v: "volatility_of ''EURUSD'' = 0.08"
    by (simp add: volatility_of_def default_volatilities_def)
  ultimately show ?thesis
    unfolding parametric_var_two_same_symbol parametric_var_single v by simp
qed

theorem run_scenario_analysis_keys_witness:
  "dom (run_scenario_analysis [mk_position ''EURUSD'' 1000 1.1] [''market_crash'', ''bogus''])
     = {''market_crash''}"
  using run_scenario_analysis_keys[of "[mk_position ''EURUSD'' 1000 1.1]"
      "[''market_crash'', ''bogus'']"]
  by simp

subsection \<open>Correlated returns\<close>

lemma fold_res_invariant:
  assumes "fold_res f xs acc = Inr r" and "P acc"
    and "\<And>x a a'. x \<in> set xs \<Longrightarrow> P a \<Longrightarrow> f x a = Inr a' \<Longrightarrow> P a'"
  shows "P r"
  using assms
proof (induction xs arbitrary: acc)
  case Nil
  then show ?case by simp
next
  case (Cons x xs)
  from Cons.prems(1) obtain a' where a: "f x acc = Inr a'" and r: "fold_res f xs a' = Inr r"
    by (cases "f x acc") auto
  have "P a'" using Cons.prems(3)[of x acc a'] Cons.prems(2) a by simp
  show ?case
    by (rule Cons.IH[OF r \<open>P a'\<close>]) (use Cons.prems(3) in auto)
qed

lemma fold_res_total:
  assumes "\<And>x a. x \<in> set xs \<Longrightarrow> \<exists>a'. f x a = Inr a'"
  shows "\<exists>r. fold_res f xs acc = Inr r"
  using assms
proof (induction xs arbitrary: acc)
  case Nil
  then show ?case by simp
next
  case (Cons x xs)
  from Cons.prems[of x acc] obtain a' where a: "f x acc = Inr a'" by auto
  from Cons.IH[of a'] Cons.prems obtain r where "fold_res f xs a' = Inr r" by auto
  with a show ?case by simp
qed

lemma matrix_ok_eye: "matrix_ok n (eye n)"
  by (auto simp: matrix_ok_def eye_def)

lemma set_entry_nth:
  assumes "length m = n" "a < n" "b < n" "i < n" "j < n" "length (m ! i) = n"
  shows "set_entry m a b v ! i ! j = (if i = a \<and> j = b then v else m ! i ! j)"
  using assms by (auto simp: set_entry_def nth_list_update)

lemma set_entry_length:
  "length (set_entry m a b v) = length m"
  "i < length m \<Longrightarrow> length (set_entry m a b v ! i) = length (m ! i)"
  by (cases "i = a"; simp add: set_entry_def)+

lemma matrix_ok_set_pair:
  assumes "matrix_ok n m" "i < n" "j < n" "i \<noteq> j"
  shows "matrix_ok n (set_entry (set_entry m i j c) j i c)"
proof -
  let ?m1 = "set_entry m i j c"
  let ?m2 = "set_entry ?m1 j i c"
  from assms(1) have len: "length m = n" and rows: "\<And>k. k < n \<Longrightarrow> length (m ! k) = n"
    and diag: "\<And>k. k < n \<Longrightarrow> m ! k ! k = 1"
    and sym: "\<And>k l. k < n \<Longrightarrow> l < n \<Longrightarrow> m ! k ! l = m ! l ! k"
    by (auto simp: matrix_ok_def)
  have len1: "length ?m1 = n" and rows1: "\<And>k. k < n \<Longrightarrow> length (?m1 ! k) = n"
    using len rows by (simp_all add: set_entry_length)
  have e1: "?m1 ! k ! l = (if k = i \<and> l = j then c else m ! k ! l)" if "k < n" "l < n" for k l
    using set_entry_nth[OF len assms(2,3) that rows[OF that(1)]] .
  have e2: "?m2 ! k ! l = (if k = j \<and> l = i then c else if k = i \<and> l = j then c else m ! k ! l)"
    if "k < n" "l < n" for k l
    by (simp only: set_entry_nth[OF len1 assms(3,2) that rows1[OF that(1)]] e1[OF that])
  have "length ?m2 = n" using len1 by (simp add: set_entry_length)
  moreover have "\<And>k. k < n \<Longrightarrow> length (?m2 ! k) = n"
    using len1 rows1 by (simp add: set_entry_length)
  moreover have "?m2 ! k ! k = 1" if "k < n" for k
  proof -
    have "\<not> (k = j \<and> k = i)" "\<not> (k = i \<and> k = j)" using assms(4) by blast+
    then have "?m2 ! k ! k = m ! k ! k" by (simp only: e2[OF that that] if_False)
    then show ?thesis by (simp only: diag[OF that])
  qed
  moreover have "?m2 ! k ! l = ?m2 ! l ! k" if "k < n" "l < n" for k l
  proof (cases "(k = j \<and> l = i) \<or> (k = i \<and> l = j)")
    case True
    then have "?m2 ! k ! l = c" "?m2 ! l ! k = c"
      by (auto simp only: e2[OF that] e2[OF that(2,1)] split: if_splits)
    then show ?thesis by (simp only:)
  next
    case False
    then have "?m2 ! k ! l = m ! k ! l" "?m2 ! l ! k = m ! l ! k"
      by (auto simp only: e2[OF that] e2[OF that(2,1)] split: if_splits)
    then show ?thesis by (simp only: sym[OF that])
  qed
  ultimately show ?thesis unfolding matrix_ok_def by blast
qed

lemma build_correlation_matrix_ok:
  assumes "build_correlation_matrix portfolio = Inr m"
  shows "matrix_ok (length portfolio) m"
proof -
  let ?n = "length portfolio"
  let ?inner = "\<lambda>i. (\<lambda>j m.
               bind_res (get_symbol (portfolio ! i)) (\<lambda>symbol_i.
               bind_res (get_symbol (portfolio ! j)) (\<lambda>symbol_j.
                 let corr = get_correlation symbol_i symbol_j
                 in Inr (set_entry (set_entry m i j corr) j i corr))))"
  have inner: "matrix_ok ?n a'"
    if "i < ?n" "matrix_ok ?n a" "fold_res (?inner i) [i + 1..<?n] a = Inr a'" for i a a'
  proof (rule fold_res_invariant[OF that(3), where P = "matrix_ok ?n"])
    show "matrix_ok ?n a" by (rule that(2))
  next
    fix x b b'
    assume x: "x \<in> set [i + 1..<?n]" and b: "matrix_ok ?n b" and s: "?inner i x b = Inr b'"
    from s obtain c where "b' = set_entry (set_entry b i x c) x i c"
      by (auto simp: bind_res_def Let_def split: sum.splits)
    with matrix_ok_set_pair[OF b that(1), of x c] x show "matrix_ok ?n b'" by auto
  qed
  from assms have f: "fold_res (\<lambda>i m. fold_res (?inner i) [i + 1..<?n] m) [0..<?n] (eye ?n) = Inr m"
    by (simp add: build_correlation_matrix_def Let_def)
  show ?thesis
  proof (rule fold_res_invariant[OF f, where P = "matrix_ok ?n"])
    show "matrix_ok ?n (eye ?n)" by (rule matrix_ok_eye)
  next
    fix x a a'
    assume "x \<in> set [0..<?n]" "matrix_ok ?n a" "fold_res (?inner x) [x + 1..<?n] a = Inr a'"
    then show "matrix_ok ?n a'" using inner[of x a a'] by simp
  qed
qed

lemma build_correlation_matrix_total:
  assumes "\<forall>p\<in>set portfolio. symbol p \<noteq> None"
  shows "\<exists>m. build_correlation_matrix portfolio = Inr m"
proof -
  have s: "\<exists>s. get_symbol (portfolio ! i) = Inr s" if "i < length portfolio" for i
    using assms that by (auto simp: get_symbol_def split: option.splits)
  show ?thesis
    unfolding build_correlation_matrix_def Let_def
  proof (rule fold_res_total)
    fix x a
    assume x: "x \<in> set [0..<length portfolio]"
    show "\<exists>a'. fold_res (\<lambda>j m.
               bind_res (get_symbol (portfolio ! x)) (\<lambda>symbol_i.
               bind_res (get_symbol (portfolio ! j)) (\<lambda>symbol_j.
                 Inr (set_entry (set_entry m x j (get_correlation symbol_i symbol_j)) j x
                        (get_correlation symbol_i symbol_j)))))
             [x + 1..<length portfolio] a = Inr a'"
    proof (rule fold_res_total)
      fix y b
      assume "y \<in> set [x + 1..<length portfolio]"
      with x s[of x] s[of y] show "\<exists>a'. bind_res (get_symbol (portfolio ! x)) (\<lambda>symbol_i.
               bind_res (get_symbol (portfolio ! y)) (\<lambda>symbol_j.
                 Inr (set_entry (set_entry b x y (get_correlation symbol_i symbol_j)) y x
                        (get_correlation symbol_i symbol_j)))) = Inr a'"
        by (auto simp: bind_res_def)
    qed
  qed
qed



lemma scale_by_volatilities_loop:
  assumes "\<forall>p\<in>set ps. symbol p \<noteq> None" and "k + length ps \<le> length rs"
  shows "\<exists>rs'. fold_res (\<lambda>(i, p) rs.
         bind_res (get_symbol p) (\<lambda>symb.
           let volatility = volatility_of symb;
               daily_vol = volatility / sqrt 252
           in bind_res (nth_res rs i) (\<lambda>r. Inr (rs[i := r * daily_vol]))))
       (enumerate k ps) rs = Inr rs' \<and> length rs' = length rs \<and>
     (\<forall>i<k. rs' ! i = rs ! i) \<and>
     (\<forall>i<length ps. rs' ! (k + i) = rs ! (k + i) * (volatility_of (the (symbol (ps ! i))) / sqrt 252))"
  using assms
proof (induction ps arbitrary: k rs)
  case Nil
  then show ?case by simp
next
  case (Cons p ps)
  let ?step = "\<lambda>(i, p) rs.
         bind_res (get_symbol p) (\<lambda>symb.
           let volatility = volatility_of symb;
               daily_vol = volatility / sqrt 252
           in bind_res (nth_res rs i) (\<lambda>r. Inr (rs[i := r * daily_vol])))"
  let ?d = "volatility_of (the (symbol p)) / sqrt 252"
  let ?rs1 = "rs[k := rs ! k * ?d]"
  from Cons.prems have sp: "symbol p \<noteq> None" and k: "k < length rs"
    and ps: "\<forall>p\<in>set ps. symbol p \<noteq> None" and len: "Suc k + length ps \<le> length ?rs1"
    by auto
  from sp k have st: "?step (k, p) rs = Inr ?rs1"
    by (auto simp: get_symbol_def nth_res_def Let_def)
  from Cons.IH[OF ps len] obtain rs' where
    f: "fold_res ?step (enumerate (Suc k) ps) ?rs1 = Inr rs'" and l: "length rs' = length ?rs1"
    and lo: "\<forall>i<Suc k. rs' ! i = ?rs1 ! i"
    and hi: "\<forall>i<length ps. rs' ! (Suc k + i) = ?rs1 ! (Suc k + i) *
                (volatility_of (the (symbol (ps ! i))) / sqrt 252)"
    by blast
  have "fold_res ?step (enumerate k (p # ps)) rs = Inr rs'"
    using st f by simp
  moreover have "length rs' = length rs" using l by simp
  moreover have "\<forall>i<k. rs' ! i = rs ! i" using lo by simp
  moreover have "\<forall>i<length (p # ps). rs' ! (k + i) =
      rs ! (k + i) * (volatility_of (the (symbol ((p # ps) ! i))) / sqrt 252)"
  proof (intro allI impI)
    fix i assume i: "i < length (p # ps)"
    show "rs' ! (k + i) = rs ! (k + i) * (volatility_of (the (symbol ((p # ps) ! i))) / sqrt 252)"
    proof (cases i)
      case 0
      with lo k show ?thesis by simp
    next
      case (Suc i')
      with i hi show ?thesis by simp
    qed
  qed
  ultimately show ?case by blast
qed

lemma scale_by_volatilities_ok:
  assumes "\<forall>p\<in>set portfolio. symbol p \<noteq> None" and "length rs = length portfolio"
  shows "\<exists>v. scale_by_volatilities portfolio rs = Inr v \<and> length v = length portfolio \<and>
     (\<forall>i<length portfolio. v ! i = rs ! i * (volatility_of (the (symbol (portfolio ! i))) / sqrt 252))"
  using scale_by_volatilities_loop[OF assms(1), of 0 rs] assms(2)
  unfolding scale_by_volatilities_def by auto

lemma generate_correlated_returns_paths:
  assumes sy: "\<forall>p\<in>set portfolio. symbol p \<noteq> None"
    and m: "build_correlation_matrix portfolio = Inr m"
    and c: "correlate cholesky m (map g [0..<length portfolio]) = Inr rs"
    and l: "length rs = length portfolio"
  shows "\<exists>v. generate_correlated_returns cholesky portfolio g = (v, \<lambda>k. g (length portfolio + k)) \<and>
     length v = length portfolio \<and>
     (\<forall>i<length portfolio. v ! i = rs ! i * (volatility_of (the (symbol (portfolio ! i))) / sqrt 252))"
proof -
  from scale_by_volatilities_ok[OF sy l] obtain v where
    v: "scale_by_volatilities portfolio rs = Inr v" "length v = length portfolio"
    "\<forall>i<length portfolio. v ! i = rs ! i * (volatility_of (the (symbol (portfolio ! i))) / sqrt 252)"
    by blast
  have "generate_correlated_returns cholesky portfolio g = (v, \<lambda>k. g (length portfolio + k))"
    by (simp add: generate_correlated_returns_def generate_correlated_returns_body_def Let_def
        try_except_def bind_st_def lift_res_def lift_total_def random_normal_vec_def m c v(1))
  with v show ?thesis by blast
qed

lemma upt_2: "[0..<2] = [0, Suc 0]"
  by (simp add: upt_rec numeral_2_eq_2)

lemma same_symbol_pair_matrix:
  "build_correlation_matrix same_symbol_pair = Inr [[1, 1], [1, 1]]"
  by (simp add: build_correlation_matrix_def same_symbol_pair_def mk_position_def
      get_symbol_def get_correlation_def eye_def set_entry_def upt_2 Let_def)

lemma cholesky_factor_singular:
  "cholesky_factor [[1, 1], [1, 1]] = Inl LinAlgError"
  by (simp add: cholesky_factor_def cholesky_row_def upt_2 Let_def)


text \<open>The paths of the routine in exact arithmetic, for a portfolio whose positions carry a
  symbol.\<close>

lemma generate_correlated_returns_exact_paths:
  assumes "\<forall>p\<in>set portfolio. symbol p \<noteq> None"
  shows "\<exists>m. build_correlation_matrix portfolio = Inr m \<and> length m = length portfolio \<and>
     (\<forall>i<length portfolio. length (m ! i) = length portfolio \<and> m ! i ! i = 1 \<and>
        (\<forall>j<length portfolio. m ! i ! j = m ! j ! i)) \<and>
     (cholesky m = Inl LinAlgError \<longrightarrow>
        (\<exists>v. generate_correlated_returns cholesky portfolio g = (v, \<lambda>k. g (length portfolio + k)) \<and>
           length v = length portfolio \<and>
           (\<forall>i<length portfolio.
              v ! i = g i * (volatility_of (the (symbol (portfolio ! i))) / sqrt 252)))) \<and>
     (\<forall>L. cholesky m = Inr L \<and> length L = length portfolio \<and>
          list_all (\<lambda>row. length row = length portfolio) L \<longrightarrow>
        (\<exists>v. generate_correlated_returns cholesky portfolio g = (v, \<lambda>k. g (length portfolio + k)) \<and>
           length v = length portfolio \<and>
           (\<forall>i<length portfolio.
              v ! i = sum_list (map2 (*) (L ! i) (map g [0..<length portfolio])) *
                (volatility_of (the (symbol (portfolio ! i))) / sqrt 252))))"
proof -
  let ?n = "length portfolio"
  from build_correlation_matrix_total[OF assms] obtain m where
    m: "build_correlation_matrix portfolio = Inr m" by blast
  from build_correlation_matrix_ok[OF m] have ok: "matrix_ok ?n m" .
  have fallback: "\<exists>v. generate_correlated_returns cholesky portfolio g = (v, \<lambda>k. g (?n + k)) \<and>
           length v = ?n \<and>
           (\<forall>i<?n. v ! i = g i * (volatility_of (the (symbol (portfolio ! i))) / sqrt 252))"
    if "cholesky m = Inl LinAlgError"
  proof -
    have c: "correlate cholesky m (map g [0..<?n]) = Inr (map g [0..<?n])"
      by (simp add: correlate_def that)
    from generate_correlated_returns_paths[OF assms m c] show ?thesis by simp
  qed
  have factor: "\<exists>v. generate_correlated_returns cholesky portfolio g = (v, \<lambda>k. g (?n + k)) \<and>
           length v = ?n \<and>
           (\<forall>i<?n. v ! i = sum_list (map2 (*) (L ! i) (map g [0..<?n])) *
                (volatility_of (the (symbol (portfolio ! i))) / sqrt 252))"
    if "cholesky m = Inr L \<and> length L = ?n \<and> list_all (\<lambda>row. length row = ?n) L" for L
  proof -
    from that have c: "correlate cholesky m (map g [0..<?n])
        = Inr (map (\<lambda>row. sum_list (map2 (*) row (map g [0..<?n]))) L)"
      by (simp add: correlate_def matvec_def)
    from that generate_correlated_returns_paths[OF assms m c] show ?thesis by simp
  qed
  from ok have "length m = ?n \<and> (\<forall>i<?n. length (m ! i) = ?n \<and> m ! i ! i = 1 \<and>
        (\<forall>j<?n. m ! i ! j = m ! j ! i))"
    by (simp add: matrix_ok_def)
  with m fallback factor show ?thesis by blast
qed

subsection \<open>Correlated returns in double arithmetic\<close>

lemma max_float_ge_1: "1 \<le> max_float"
proof -
  have "(1::real) \<le> 2 - 1 / 2 ^ 52"
  proof -
    have "(1::real) / 2 ^ 52 \<le> 1" by (simp add: divide_le_eq_1)
    then show ?thesis by linarith
  qed
  moreover have "(1::real) \<le> 2 ^ 1023" by (rule one_le_power) simp
  ultimately have "(1::real) * 1 \<le> (2 - 1 / 2 ^ 52) * 2 ^ 1023"
    by (intro mult_mono) simp_all
  then show ?thesis unfolding max_float_def by (simp only: mult_1)
qed

lemma fl_Fin: "\<bar>r\<bar> \<le> max_float \<Longrightarrow> fl r = Fin r"
  by (simp add: fl_def)

lemma fl_small [simp]: "fl 0 = Fin 0" "fl 1 = Fin 1" "fl 0.01 = Fin 0.01"
  using max_float_ge_1 by (simp_all add: fl_def)

lemma bounded_fin_Fin [simp]: "bounded_fin b (Fin r) \<longleftrightarrow> \<bar>r\<bar> \<le> b"
  by (simp add: bounded_fin_def)

lemma bounded_fin_NonFin [simp]: "\<not> bounded_fin b NonFin"
  by (simp add: bounded_fin_def)

lemma bounded_fin_finite: "bounded_fin b x \<Longrightarrow> x \<noteq> NonFin"
  by (cases x) simp_all

lemma bounded_fin_mono: "bounded_fin a x \<Longrightarrow> a \<le> b \<Longrightarrow> bounded_fin b x"
  by (cases x) simp_all

lemma bounded_fin_fl: "\<bar>r\<bar> \<le> b \<Longrightarrow> b \<le> max_float \<Longrightarrow> bounded_fin b (fl r)"
  by (simp add: fl_def)

lemma bounded_fin_fmul:
  assumes "bounded_fin a x" and "bounded_fin b y" and "a * b \<le> max_float"
  shows "bounded_fin (a * b) (fmul x y)"
proof -
  from assms(1,2) obtain r s where x: "x = Fin r" "\<bar>r\<bar> \<le> a" and y: "y = Fin s" "\<bar>s\<bar> \<le> b"
    by (cases x; cases y) simp_all
  have "\<bar>r * s\<bar> \<le> a * b"
    unfolding abs_mult using x(2) y(2) by (intro mult_mono) simp_all
  with assms(3) x(1) y(1) show ?thesis by (simp add: fl_def)
qed

lemma bounded_fin_fadd:
  assumes "bounded_fin a x" and "bounded_fin b y" and "a + b \<le> max_float"
  shows "bounded_fin (a + b) (fadd x y)"
proof -
  from assms(1,2) obtain r s where x: "x = Fin r" "\<bar>r\<bar> \<le> a" and y: "y = Fin s" "\<bar>s\<bar> \<le> b"
    by (cases x; cases y) simp_all
  have "\<bar>r + s\<bar> \<le> a + b" using x(2) y(2) by linarith
  with assms(3) x(1) y(1) show ?thesis by (simp add: fl_def)
qed

lemma foldl_fadd_bounded:
  assumes "bounded_fin a acc" and "\<forall>t\<in>set ts. bounded_fin z t" and "0 \<le> z"
    and "a + real (length ts) * z \<le> max_float"
  shows "bounded_fin (a + real (length ts) * z) (foldl fadd acc ts)"
  using assms
proof (induction ts arbitrary: a acc)
  case Nil
  then show ?case by simp
next
  case (Cons t ts)
  have e: "a + real (length (t # ts)) * z = (a + z) + real (length ts) * z"
    by (simp add: algebra_simps)
  have "0 \<le> real (length ts) * z" using Cons.prems(3) by simp
  with Cons.prems(4) have "a + z \<le> max_float" unfolding e by linarith
  with Cons.prems(1,2) have "bounded_fin (a + z) (fadd acc t)"
    by (intro bounded_fin_fadd) simp_all
  from Cons.IH[OF this _ Cons.prems(3)] Cons.prems(2,4) show ?case
    unfolding e by simp
qed

lemma volatility_of_range: "0 \<le> volatility_of s \<and> volatility_of s \<le> 1"
  by (simp add: volatility_of_def default_volatilities_def)

lemma daily_vol_range: "0 \<le> volatility_of s / sqrt 252 \<and> volatility_of s / sqrt 252 \<le> 1"
proof -
  have "1 \<le> sqrt 252" by simp
  with volatility_of_range[of s] have "volatility_of s \<le> sqrt 252" by linarith
  moreover have "0 < sqrt 252" by simp
  ultimately have "volatility_of s / sqrt 252 \<le> 1" by (simp only: divide_le_eq_1_pos)
  moreover have "0 \<le> volatility_of s / sqrt 252"
    using volatility_of_range[of s] by simp
  ultimately show ?thesis by blast
qed

lemma daily_vol_fp_eq: "daily_vol_fp s = Fin (volatility_of s / sqrt 252)"
proof -
  have "\<bar>volatility_of s / sqrt 252\<bar> \<le> 1" using daily_vol_range[of s] by linarith
  with max_float_ge_1 show ?thesis unfolding daily_vol_fp_def by (intro fl_Fin) linarith
qed

lemma daily_vol_fp_bounded: "bounded_fin 1 (daily_vol_fp s)"
proof -
  have "\<bar>volatility_of s / sqrt 252\<bar> \<le> 1" using daily_vol_range[of s] by linarith
  then show ?thesis unfolding daily_vol_fp_eq bounded_fin_Fin .
qed

lemma normal_draw_fp: "fadd (Fin 0) (fmul (Fin 1) (fl z)) = fl z"
  by (cases "\<bar>z\<bar> \<le> max_float") (simp_all add: fl_def)

lemma random_normal_vec_fp_standard:
  "random_normal_vec_fp 0 1 n g = (map (\<lambda>k. fl (g k)) [0..<n], \<lambda>k. g (n + k))"
  by (simp add: random_normal_vec_fp_def normal_draw_fp)

lemma random_normal_vec_fp_handler:
  assumes "\<forall>k. \<bar>g k\<bar> \<le> b" and "b \<le> max_float"
  shows "random_normal_vec_fp 0 0.01 n g = (map (\<lambda>k. Fin (0.01 * g k)) [0..<n], \<lambda>k. g (n + k))"
proof -
  have "fadd (fl 0) (fmul (fl 0.01) (fl (g k))) = Fin (0.01 * g k)" for k
  proof -
    have gk: "\<bar>g k\<bar> \<le> max_float" using assms by (meson order_trans)
    then have "\<bar>0.01 * g k\<bar> \<le> max_float" by (simp add: abs_mult)
    with gk max_float_ge_1 show ?thesis by (simp add: fl_def)
  qed
  then show ?thesis by (simp add: random_normal_vec_fp_def)
qed

lemma list_all_update:
  "list_all P xs \<Longrightarrow> P y \<Longrightarrow> list_all P (xs[i := y])"
  unfolding list_all_iff using set_update_subset_insert[of xs i y] by auto

lemma scale_by_volatilities_fp_bounded:
  assumes "scale_by_volatilities_fp portfolio rs = Inr rs'"
    and "list_all (bounded_fin max_float) rs"
  shows "list_all (bounded_fin max_float) rs'"
proof (rule fold_res_invariant[OF assms(1)[unfolded scale_by_volatilities_fp_def],
      where P = "list_all (bounded_fin max_float)"])
  show "list_all (bounded_fin max_float) rs" by (rule assms(2))
next
  fix x a a'
  assume a: "list_all (bounded_fin max_float) a"
    and s: "(case x of (i, p) \<Rightarrow> \<lambda>rs. bind_res (get_symbol p) (\<lambda>symb.
         bind_res (nth_res rs i) (\<lambda>r. Inr (rs[i := fmul r (daily_vol_fp symb)])))) a = Inr a'"
  obtain i p where x: "x = (i, p)" by (cases x)
  from s x obtain symb where i: "i < length a" and a': "a' = a[i := fmul (a ! i) (daily_vol_fp symb)]"
    by (auto simp: bind_res_def nth_res_def split: sum.splits if_splits)
  from a i have "bounded_fin max_float (a ! i)" by (simp add: list_all_length)
  from bounded_fin_fmul[OF this daily_vol_fp_bounded[of symb]]
  have "bounded_fin max_float (fmul (a ! i) (daily_vol_fp symb))" by simp
  with a a' show "list_all (bounded_fin max_float) a'" by (simp add: list_all_update)
qed

lemma scale_by_volatilities_fp_loop:
  assumes "\<forall>p\<in>set ps. symbol p \<noteq> None" and "k + length ps \<le> length rs"
  shows "\<exists>rs'. fold_res (\<lambda>(i, p) rs.
         bind_res (get_symbol p) (\<lambda>symb.
         bind_res (nth_res rs i) (\<lambda>r. Inr (rs[i := fmul r (daily_vol_fp symb)]))))
       (enumerate k ps) rs = Inr rs' \<and> length rs' = length rs \<and>
     (\<forall>i<k. rs' ! i = rs ! i) \<and>
     (\<forall>i<length ps. rs' ! (k + i) = fmul (rs ! (k + i)) (daily_vol_fp (the (symbol (ps ! i)))))"
  using assms
proof (induction ps arbitrary: k rs)
  case Nil
  then show ?case by simp
next
  case (Cons p ps)
  let ?step = "\<lambda>(i, p) rs.
         bind_res (get_symbol p) (\<lambda>symb.
         bind_res (nth_res rs i) (\<lambda>r. Inr (rs[i := fmul r (daily_vol_fp symb)])))"
  let ?rs1 = "rs[k := fmul (rs ! k) (daily_vol_fp (the (symbol p)))]"
  from Cons.prems have sp: "symbol p \<noteq> None" and k: "k < length rs"
    and ps: "\<forall>p\<in>set ps. symbol p \<noteq> None" and len: "Suc k + length ps \<le> length ?rs1"
    by auto
  from sp k have st: "?step (k, p) rs = Inr ?rs1"
    by (auto simp: get_symbol_def nth_res_def)
  from Cons.IH[OF ps len] obtain rs' where
    f: "fold_res ?step (enumerate (Suc k) ps) ?rs1 = Inr rs'" and l: "length rs' = length ?rs1"
    and lo: "\<forall>i<Suc k. rs' ! i = ?rs1 ! i"
    and hi: "\<forall>i<length ps. rs' ! (Suc k + i) =
                fmul (?rs1 ! (Suc k + i)) (daily_vol_fp (the (symbol (ps ! i))))"
    by blast
  have "fold_res ?step (enumerate k (p # ps)) rs = Inr rs'"
    using st f by simp
  moreover have "length rs' = length rs" using l by simp
  moreover have "\<forall>i<k. rs' ! i = rs ! i" using lo by simp
  moreover have "\<forall>i<length (p # ps). rs' ! (k + i) =
      fmul (rs ! (k + i)) (daily_vol_fp (the (symbol ((p # ps) ! i))))"
  proof (intro allI impI)
    fix i assume i: "i < length (p # ps)"
    show "rs' ! (k + i) = fmul (rs ! (k + i)) (daily_vol_fp (the (symbol ((p # ps) ! i))))"
    proof (cases i)
      case 0
      with lo k show ?thesis by simp
    next
      case (Suc i')
      with i hi show ?thesis by simp
    qed
  qed
  ultimately show ?case by blast
qed

lemma scale_by_volatilities_fp_fails:
  assumes "\<exists>p\<in>set ps. symbol p = None"
  shows "\<exists>e. fold_res (\<lambda>(i, p) rs.
         bind_res (get_symbol p) (\<lambda>symb.
         bind_res (nth_res rs i) (\<lambda>r. Inr (rs[i := fmul r (daily_vol_fp symb)]))))
       (enumerate k ps) rs = Inl e"
  using assms
proof (induction ps arbitrary: k rs)
  case Nil
  then show ?case by simp
next
  case (Cons p ps)
  let ?step = "\<lambda>(i, p) rs.
         bind_res (get_symbol p) (\<lambda>symb.
         bind_res (nth_res rs i) (\<lambda>r. Inr (rs[i := fmul r (daily_vol_fp symb)])))"
  show ?case
  proof (cases "?step (k, p) rs")
    case (Inl e)
    then show ?thesis by simp
  next
    case (Inr rs1)
    then have "symbol p \<noteq> None" by (auto simp: get_symbol_def split: option.splits)
    with Cons.prems have "\<exists>p\<in>set ps. symbol p = None" by auto
    from Cons.IH[OF this, of "Suc k" rs1] Inr show ?thesis by simp
  qed
qed

lemma fp_body_unfold:
  "generate_correlated_returns_fp_body cholesky portfolio g =
     (case build_correlation_matrix portfolio of
        Inl e \<Rightarrow> (Inl e, g)
      | Inr m \<Rightarrow>
          (bind_res (correlate_fp cholesky m (map (\<lambda>k. fl (g k)) [0..<length portfolio]))
             (scale_by_volatilities_fp portfolio),
           \<lambda>k. g (length portfolio + k)))"
  by (simp add: generate_correlated_returns_fp_body_def Let_def bind_st_def lift_res_def
      lift_total_def random_normal_vec_fp_standard bind_res_def split: sum.splits)

lemma fp_body_rng:
  assumes "generate_correlated_returns_fp_body cholesky portfolio g = (r, g1)"
  shows "g1 = g \<or> g1 = (\<lambda>k. g (length portfolio + k))"
  using assms unfolding fp_body_unfold by (auto split: sum.splits)

lemma fp_body_missing_symbol:
  assumes "\<exists>p\<in>set portfolio. symbol p = None"
  shows "\<exists>e g1. generate_correlated_returns_fp_body cholesky portfolio g = (Inl e, g1)"
proof (cases "build_correlation_matrix portfolio")
  case (Inl e)
  then show ?thesis unfolding fp_body_unfold by simp
next
  case (Inr m)
  let ?ind = "map (\<lambda>k. fl (g k)) [0..<length portfolio]"
  show ?thesis
  proof (cases "correlate_fp cholesky m ?ind")
    case (Inl e)
    with Inr show ?thesis unfolding fp_body_unfold by simp
  next
    case rs: (Inr rs)
    from scale_by_volatilities_fp_fails[OF assms, of 0 rs]
    obtain e where "scale_by_volatilities_fp portfolio rs = Inl e"
      unfolding scale_by_volatilities_fp_def by blast
    with Inr rs show ?thesis unfolding fp_body_unfold by simp
  qed
qed

lemma fp_scaled:
  assumes sy: "\<forall>p\<in>set portfolio. symbol p \<noteq> None"
    and m: "build_correlation_matrix portfolio = Inr m"
    and c: "correlate_fp cholesky m (map (\<lambda>k. fl (g k)) [0..<length portfolio]) = Inr rs"
    and l: "length rs = length portfolio"
  shows "generate_correlated_returns_fp cholesky portfolio g =
     (map (\<lambda>i. fmul (rs ! i) (daily_vol_fp (the (symbol (portfolio ! i))))) [0..<length portfolio],
      \<lambda>k. g (length portfolio + k))"
proof -
  from scale_by_volatilities_fp_loop[OF sy, of 0 rs] l obtain v where
    v: "scale_by_volatilities_fp portfolio rs = Inr v" and lv: "length v = length portfolio"
    and nv: "\<forall>i<length portfolio. v ! i = fmul (rs ! i) (daily_vol_fp (the (symbol (portfolio ! i))))"
    unfolding scale_by_volatilities_fp_def by auto
  have "v = map (\<lambda>i. fmul (rs ! i) (daily_vol_fp (the (symbol (portfolio ! i))))) [0..<length portfolio]"
    using lv nv by (intro nth_equalityI) simp_all
  moreover have "generate_correlated_returns_fp cholesky portfolio g =
      (v, \<lambda>k. g (length portfolio + k))"
    unfolding generate_correlated_returns_fp_def try_except_def fp_body_unfold
    by (simp add: m c v)
  ultimately show ?thesis by simp
qed

lemma matvec_fp_bounded:
  assumes "matvec_fp L ind = Inr rs" and "list_all (list_all (bounded_fin 1)) L"
    and "list_all (bounded_fin b) ind" and "0 \<le> b" and "b * real (length ind) \<le> max_float"
    and "b \<le> max_float"
  shows "list_all (bounded_fin max_float) rs"
proof -
  from assms(1) have len: "list_all (\<lambda>row. length row = length ind) L"
    and rs: "rs = map (\<lambda>row. foldl fadd (Fin 0) (map2 fmul row ind)) L"
    by (auto simp: matvec_fp_def split: if_splits)
  have "bounded_fin max_float (foldl fadd (Fin 0) (map2 fmul row ind))" if "row \<in> set L" for row
  proof -
    from that len have lr: "length row = length ind" by (simp add: list_all_iff)
    from that assms(2) have br: "list_all (bounded_fin 1) row" by (simp add: list_all_iff)
    have t: "\<forall>t\<in>set (map2 fmul row ind). bounded_fin b t"
    proof
      fix t assume "t \<in> set (map2 fmul row ind)"
      then obtain x y where xy: "(x, y) \<in> set (zip row ind)" "t = fmul x y" by auto
      then have "x \<in> set row" "y \<in> set ind" by (auto dest: set_zip_leftD set_zip_rightD)
      with br assms(3) have "bounded_fin 1 x" "bounded_fin b y" by (simp_all add: list_all_iff)
      from bounded_fin_fmul[OF this] assms(6) xy(2) show "bounded_fin b t" by simp
    qed
    have l: "length (map2 fmul row ind) = length ind" using lr by simp
    have "bounded_fin (0 + real (length (map2 fmul row ind)) * b)
        (foldl fadd (Fin 0) (map2 fmul row ind))"
      by (rule foldl_fadd_bounded[OF _ t assms(4)])
        (use assms(5) l in \<open>simp_all add: mult.commute\<close>)
    then show ?thesis
      by (rule bounded_fin_mono) (use assms(5) l in \<open>simp add: mult.commute\<close>)
  qed
  then show ?thesis unfolding rs list_all_iff by auto
qed

lemma fp_finite:
  assumes g: "\<forall>k. \<bar>g k\<bar> \<le> b" and b: "b \<le> max_float"
    and nb: "b * real (length portfolio) \<le> max_float"
    and ch: "\<forall>m L. build_correlation_matrix portfolio = Inr m \<and> cholesky m = Inr L \<longrightarrow>
               list_all (list_all (bounded_fin 1)) L"
  shows "list_all (\<lambda>x. x \<noteq> NonFin) (fst (generate_correlated_returns_fp cholesky portfolio g))"
proof -
  let ?n = "length portfolio"
  let ?ind = "map (\<lambda>k. fl (g k)) [0..<?n]"
  have b0: "0 \<le> b" using g[rule_format, of 0] by linarith
  have ind: "list_all (bounded_fin b) ?ind"
    using g b by (auto simp: list_all_iff intro!: bounded_fin_fl)
  obtain r g1 where body: "generate_correlated_returns_fp_body cholesky portfolio g = (r, g1)"
    by (cases "generate_correlated_returns_fp_body cholesky portfolio g")
  from fp_body_rng[OF body] g have g1: "\<forall>k. \<bar>g1 k\<bar> \<le> b" by auto
  show ?thesis
  proof (cases r)
    case (Inl e)
    with body have "generate_correlated_returns_fp cholesky portfolio g =
        random_normal_vec_fp 0 0.01 ?n g1"
      by (simp add: generate_correlated_returns_fp_def try_except_def)
    with random_normal_vec_fp_handler[OF g1 b, of ?n] show ?thesis
      by (simp add: list_all_iff)
  next
    case (Inr v)
    with body have res: "generate_correlated_returns_fp cholesky portfolio g = (v, g1)"
      by (simp add: generate_correlated_returns_fp_def try_except_def)
    from body Inr obtain m rs where m: "build_correlation_matrix portfolio = Inr m"
      and c: "correlate_fp cholesky m ?ind = Inr rs"
      and s: "scale_by_volatilities_fp portfolio rs = Inr v"
      unfolding fp_body_unfold by (auto simp: bind_res_def split: sum.splits)
    have "list_all (bounded_fin max_float) rs"
    proof (cases "cholesky m")
      case L: (Inr L)
      with c have mv: "matvec_fp L ?ind = Inr rs" by (simp add: correlate_fp_def)
      from ch m L have "list_all (list_all (bounded_fin 1)) L" by blast
      from matvec_fp_bounded[OF mv this ind b0 _ b] nb show ?thesis by simp
    next
      case (Inl e)
      with c have "rs = ?ind" by (cases e) (simp_all add: correlate_fp_def)
      with ind b show ?thesis
        by (auto simp: list_all_iff intro: bounded_fin_mono)
    qed
    from scale_by_volatilities_fp_bounded[OF s this] res show ?thesis
      by (auto simp: list_all_iff dest: bounded_fin_finite)
  qed
qed

lemma fmul_daily_vol:
  assumes "\<bar>x\<bar> \<le> max_float"
  shows "fmul (Fin x) (daily_vol_fp s) = Fin (x * (volatility_of s / sqrt 252))"
proof -
  have "\<bar>volatility_of s / sqrt 252\<bar> \<le> 1" using daily_vol_range[of s] by linarith
  then have "\<bar>x\<bar> * \<bar>volatility_of s / sqrt 252\<bar> \<le> \<bar>x\<bar> * 1"
    by (intro mult_left_mono) simp_all
  with assms have "\<bar>x * (volatility_of s / sqrt 252)\<bar> \<le> max_float"
    unfolding abs_mult by linarith
  then show ?thesis unfolding daily_vol_fp_eq by (simp add: fl_def)
qed

text \<open>On the fallback path the two models agree: the entries in double arithmetic are the
  exact ones, as long as the draws are doubles.\<close>

lemma fallback_models_agree:
  assumes sy: "\<forall>p\<in>set portfolio. symbol p \<noteq> None"
    and m: "build_correlation_matrix portfolio = Inr m"
    and c: "cholesky m = Inl LinAlgError" and cf: "cholesky_fp m = Inl LinAlgError"
    and g: "\<forall>k. \<bar>g k\<bar> \<le> max_float"
  shows "fst (generate_correlated_returns_fp cholesky_fp portfolio g) =
     map Fin (fst (generate_correlated_returns cholesky portfolio g))"
proof -
  let ?n = "length portfolio"
  from generate_correlated_returns_exact_paths[OF sy, of cholesky g] m c obtain v where
    v: "generate_correlated_returns cholesky portfolio g = (v, \<lambda>k. g (?n + k))"
    "length v = ?n"
    "\<forall>i<?n. v ! i = g i * (volatility_of (the (symbol (portfolio ! i))) / sqrt 252)"
    by auto
  have cr: "correlate_fp cholesky_fp m (map (\<lambda>k. fl (g k)) [0..<?n])
      = Inr (map (\<lambda>k. fl (g k)) [0..<?n])"
    by (simp add: correlate_fp_def cf)
  have e: "fmul (fl (g i)) (daily_vol_fp s) = Fin (g i * (volatility_of s / sqrt 252))" for i s
    using g fmul_daily_vol[of "g i" s] by (simp add: fl_Fin)
  have "fst (generate_correlated_returns_fp cholesky_fp portfolio g) =
      map (\<lambda>i. Fin (g i * (volatility_of (the (symbol (portfolio ! i))) / sqrt 252))) [0..<?n]"
    using fp_scaled[OF sy m cr] by (simp add: e cong: map_cong)
  also have "\<dots> = map Fin v"
    using v(2,3) by (intro nth_equalityI) simp_all
  finally show ?thesis by (simp add: v(1))
qed

lemma sum_squares_bounds:
  fixes r :: "real list"
  shows "0 \<le> sum_list (map2 (*) r r)" and "x \<in> set r \<Longrightarrow> x * x \<le> sum_list (map2 (*) r r)"
proof -
  show nonneg: "0 \<le> sum_list (map2 (*) r r)" for r :: "real list"
    by (induction r) simp_all
  show "x \<in> set r \<Longrightarrow> x * x \<le> sum_list (map2 (*) r r)"
  proof (induction r)
    case Nil
    then show ?case by simp
  next
    case (Cons a r)
    show ?case
    proof (cases "x = a")
      case True
      with nonneg[of r] show ?thesis by simp
    next
      case False
      with Cons have "x * x \<le> sum_list (map2 (*) r r)" by simp
      then show ?thesis by (simp add: add_increasing)
    qed
  qed
qed

lemma cholesky_row_bounded:
  assumes "cholesky_row L a i n = Inr row" and "a ! i = 1"
  shows "\<forall>x\<in>set row. \<bar>x\<bar> \<le> 1"
proof -
  define r where "r = fold (\<lambda>j r. r @ [(a ! j - sum_list (map2 (*) r (take j (L ! j)))) / (L ! j ! j)])
                [0..<i] []"
  define d where "d = a ! i - sum_list (map2 (*) r r)"
  from assms(1) have d: "0 < d" and row: "row = r @ [sqrt d] @ replicate (n - i - 1) 0"
    by (auto simp: cholesky_row_def Let_def r_def d_def split: if_splits)
  have s: "sum_list (map2 (*) r r) = 1 - d" using assms(2) by (simp add: d_def)
  have "\<bar>x\<bar> \<le> 1" if "x \<in> set r" for x
  proof -
    from sum_squares_bounds(2)[OF that] s d have "x * x \<le> 1" by linarith
    then have "x\<^sup>2 \<le> 1" by (simp add: power2_eq_square)
    then show ?thesis by (simp add: abs_square_le_1)
  qed
  moreover have "\<bar>sqrt d\<bar> \<le> 1"
  proof -
    from sum_squares_bounds(1)[of r] s have "d \<le> 1" by linarith
    with d show ?thesis by simp
  qed
  ultimately show ?thesis unfolding row by auto
qed

lemma cholesky_factor_bounded:
  assumes "cholesky_factor A = Inr L" and "\<forall>i<length A. A ! i ! i = 1"
  shows "\<forall>row\<in>set L. \<forall>x\<in>set row. \<bar>x\<bar> \<le> 1"
proof -
  from assms(1) have f: "fold_res (\<lambda>i L. bind_res (cholesky_row L (A ! i) i (length A))
      (\<lambda>r. Inr (L @ [r]))) [0..<length A] [] = Inr L"
    by (auto simp: cholesky_factor_def Let_def split: if_splits)
  show ?thesis
  proof (rule fold_res_invariant[OF f, where P = "\<lambda>L. \<forall>row\<in>set L. \<forall>x\<in>set row. \<bar>x\<bar> \<le> 1"])
    show "\<forall>row\<in>set []. \<forall>x\<in>set row. \<bar>x\<bar> \<le> (1::real)" by simp
  next
    fix i K K'
    assume i: "i \<in> set [0..<length A]" and K: "\<forall>row\<in>set K. \<forall>x\<in>set row. \<bar>x\<bar> \<le> 1"
      and st: "bind_res (cholesky_row K (A ! i) i (length A)) (\<lambda>r. Inr (K @ [r])) = Inr K'"
    from st obtain r where r: "cholesky_row K (A ! i) i (length A) = Inr r" and K': "K' = K @ [r]"
      by (auto simp: bind_res_def split: sum.splits)
    from i assms(2) have "A ! i ! i = 1" by simp
    from cholesky_row_bounded[OF r this] K K'
    show "\<forall>row\<in>set K'. \<forall>x\<in>set row. \<bar>x\<bar> \<le> 1" by auto
  qed
qed

lemma cholesky_factor_fp_bounded:
  assumes "build_correlation_matrix portfolio = Inr m" and "cholesky_factor_fp m = Inr L"
  shows "list_all (list_all (bounded_fin 1)) L"
proof -
  from build_correlation_matrix_ok[OF assms(1)] have "\<forall>i<length m. m ! i ! i = 1"
    by (simp add: matrix_ok_def)
  moreover from assms(2) obtain K where K: "cholesky_factor m = Inr K" and L: "L = map (map fl) K"
    by (auto simp: cholesky_factor_fp_def split: sum.splits)
  ultimately have "\<forall>row\<in>set K. \<forall>x\<in>set row. \<bar>x\<bar> \<le> 1"
    using cholesky_factor_bounded by blast
  then show ?thesis unfolding L list_all_iff
    using max_float_ge_1 by (auto intro!: bounded_fin_fl)
qed

text \<open>
  Claim C4.  For every portfolio, every behaviour of the factorization and every stream of
  draws:
  \<^item> a correlation matrix that the generator builds is \<open>n \<times> n\<close>, symmetric, with 1 on the
    diagonal, and it is built whenever every position carries a symbol;
  \<^item> no exception leaves the routine: it returns what the body of its \<open>try\<close> computed, or,
    when the body raised, the \<open>n\<close> draws of the handler; the body raises when a position
    lacks its symbol, when the factorization raises an error other than LinAlgError, and
    when the factor does not fit the draws;
  \<^item> when the factorization raises LinAlgError, the vector is the independent draws, each
    scaled by the daily volatility of its position;
  \<^item> the entries are finite doubles (none is inf or nan) whenever the draws are bounded by
    some \<open>b\<close> with \<open>b * n\<close> in the range of doubles and the entries of a returned factor are
    finite and at most 1 in magnitude, as those of the Cholesky factor of a matrix with
    unit diagonal are.
\<close>

theorem correlated_returns_total_and_finite:
  "(\<forall>m. build_correlation_matrix portfolio = Inr m \<longrightarrow>
      length m = length portfolio \<and>
      (\<forall>i<length portfolio. length (m ! i) = length portfolio \<and> m ! i ! i = 1 \<and>
         (\<forall>j<length portfolio. m ! i ! j = m ! j ! i))) \<and>
   ((\<forall>p\<in>set portfolio. symbol p \<noteq> None) \<longrightarrow>
      (\<exists>m. build_correlation_matrix portfolio = Inr m)) \<and>
   (\<forall>v g1. generate_correlated_returns_fp_body cholesky portfolio g = (Inr v, g1) \<longrightarrow>
      generate_correlated_returns_fp cholesky portfolio g = (v, g1)) \<and>
   (\<forall>e g1. generate_correlated_returns_fp_body cholesky portfolio g = (Inl e, g1) \<longrightarrow>
      generate_correlated_returns_fp cholesky portfolio g =
        random_normal_vec_fp 0 0.01 (length portfolio) g1) \<and>
   ((\<exists>p\<in>set portfolio. symbol p = None) \<longrightarrow>
      (\<exists>e g1. generate_correlated_returns_fp_body cholesky portfolio g = (Inl e, g1))) \<and>
   (\<forall>m e. build_correlation_matrix portfolio = Inr m \<and> cholesky m = Inl e \<and> e \<noteq> LinAlgError \<longrightarrow>
      generate_correlated_returns_fp_body cholesky portfolio g =
        (Inl e, \<lambda>k. g (length portfolio + k))) \<and>
   (\<forall>m L. build_correlation_matrix portfolio = Inr m \<and> cholesky m = Inr L \<and>
        \<not> list_all (\<lambda>row. length row = length portfolio) L \<longrightarrow>
      generate_correlated_returns_fp_body cholesky portfolio g =
        (Inl ValueError, \<lambda>k. g (length portfolio + k))) \<and>
   (\<forall>m. (\<forall>p\<in>set portfolio. symbol p \<noteq> None) \<and> build_correlation_matrix portfolio = Inr m \<and>
        cholesky m = Inl LinAlgError \<longrightarrow>
      generate_correlated_returns_fp cholesky portfolio g =
        (map (\<lambda>i. fmul (fl (g i)) (daily_vol_fp (the (symbol (portfolio ! i)))))
           [0..<length portfolio],
         \<lambda>k. g (length portfolio + k))) \<and>
   (\<forall>b. (\<forall>k. \<bar>g k\<bar> \<le> b) \<and> b \<le> max_float \<and> b * real (length portfolio) \<le> max_float \<and>
        (\<forall>m L. build_correlation_matrix portfolio = Inr m \<and> cholesky m = Inr L \<longrightarrow>
           list_all (list_all (bounded_fin 1)) L) \<longrightarrow>
      list_all (\<lambda>x. x \<noteq> NonFin) (fst (generate_correlated_returns_fp cholesky portfolio g)))"
proof -
  have c1: "\<forall>m. build_correlation_matrix portfolio = Inr m \<longrightarrow>
      length m = length portfolio \<and>
      (\<forall>i<length portfolio. length (m ! i) = length portfolio \<and> m ! i ! i = 1 \<and>
         (\<forall>j<length portfolio. m ! i ! j = m ! j ! i))"
  proof (intro allI impI)
    fix m
    assume "build_correlation_matrix portfolio = Inr m"
    from build_correlation_matrix_ok[OF this]
    show "length m = length portfolio \<and>
      (\<forall>i<length portfolio. length (m ! i) = length portfolio \<and> m ! i ! i = 1 \<and>
         (\<forall>j<length portfolio. m ! i ! j = m ! j ! i))"
      by (simp add: matrix_ok_def)
  qed
  have c2: "(\<forall>p\<in>set portfolio. symbol p \<noteq> None) \<longrightarrow>
      (\<exists>m. build_correlation_matrix portfolio = Inr m)"
    using build_correlation_matrix_total by blast
  have c3: "\<forall>v g1. generate_correlated_returns_fp_body cholesky portfolio g = (Inr v, g1) \<longrightarrow>
      generate_correlated_returns_fp cholesky portfolio g = (v, g1)"
    by (simp add: generate_correlated_returns_fp_def try_except_def)
  have c4: "\<forall>e g1. generate_correlated_returns_fp_body cholesky portfolio g = (Inl e, g1) \<longrightarrow>
      generate_correlated_returns_fp cholesky portfolio g =
        random_normal_vec_fp 0 0.01 (length portfolio) g1"
    by (simp add: generate_correlated_returns_fp_def try_except_def)
  have c5: "(\<exists>p\<in>set portfolio. symbol p = None) \<longrightarrow>
      (\<exists>e g1. generate_correlated_returns_fp_body cholesky portfolio g = (Inl e, g1))"
    using fp_body_missing_symbol by blast
  have c6: "\<forall>m e. build_correlation_matrix portfolio = Inr m \<and> cholesky m = Inl e \<and>
        e \<noteq> LinAlgError \<longrightarrow>
      generate_correlated_returns_fp_body cholesky portfolio g =
        (Inl e, \<lambda>k. g (length portfolio + k))"
  proof (intro allI impI)
    fix m e
    assume "build_correlation_matrix portfolio = Inr m \<and> cholesky m = Inl e \<and> e \<noteq> LinAlgError"
    then show "generate_correlated_returns_fp_body cholesky portfolio g =
        (Inl e, \<lambda>k. g (length portfolio + k))"
      unfolding fp_body_unfold by (cases e) (simp_all add: correlate_fp_def)
  qed
  have c7: "\<forall>m L. build_correlation_matrix portfolio = Inr m \<and> cholesky m = Inr L \<and>
        \<not> list_all (\<lambda>row. length row = length portfolio) L \<longrightarrow>
      generate_correlated_returns_fp_body cholesky portfolio g =
        (Inl ValueError, \<lambda>k. g (length portfolio + k))"
    unfolding fp_body_unfold by (simp add: correlate_fp_def matvec_fp_def)
  have c8: "\<forall>m. (\<forall>p\<in>set portfolio. symbol p \<noteq> None) \<and>
        build_correlation_matrix portfolio = Inr m \<and> cholesky m = Inl LinAlgError \<longrightarrow>
      generate_correlated_returns_fp cholesky portfolio g =
        (map (\<lambda>i. fmul (fl (g i)) (daily_vol_fp (the (symbol (portfolio ! i)))))
           [0..<length portfolio],
         \<lambda>k. g (length portfolio + k))"
  proof (intro allI impI)
    fix m
    assume a: "(\<forall>p\<in>set portfolio. symbol p \<noteq> None) \<and>
        build_correlation_matrix portfolio = Inr m \<and> cholesky m = Inl LinAlgError"
    then have c: "correlate_fp cholesky m (map (\<lambda>k. fl (g k)) [0..<length portfolio])
        = Inr (map (\<lambda>k. fl (g k)) [0..<length portfolio])"
      by (simp add: correlate_fp_def)
    from a have sy: "\<forall>p\<in>set portfolio. symbol p \<noteq> None"
      and m: "build_correlation_matrix portfolio = Inr m" by blast+
    have "map (\<lambda>i. fmul (map (\<lambda>k. fl (g k)) [0..<length portfolio] ! i)
              (daily_vol_fp (the (symbol (portfolio ! i))))) [0..<length portfolio]
        = map (\<lambda>i. fmul (fl (g i)) (daily_vol_fp (the (symbol (portfolio ! i)))))
            [0..<length portfolio]"
      by (rule map_cong) simp_all
    with fp_scaled[OF sy m c]
    show "generate_correlated_returns_fp cholesky portfolio g =
        (map (\<lambda>i. fmul (fl (g i)) (daily_vol_fp (the (symbol (portfolio ! i)))))
           [0..<length portfolio],
         \<lambda>k. g (length portfolio + k))"
      by simp
  qed
  have c9: "\<forall>b. (\<forall>k. \<bar>g k\<bar> \<le> b) \<and> b \<le> max_float \<and>
        b * real (length portfolio) \<le> max_float \<and>
        (\<forall>m L. build_correlation_matrix portfolio = Inr m \<and> cholesky m = Inr L \<longrightarrow>
           list_all (list_all (bounded_fin 1)) L) \<longrightarrow>
      list_all (\<lambda>x. x \<noteq> NonFin) (fst (generate_correlated_returns_fp cholesky portfolio g))"
    using fp_finite[of g _ portfolio cholesky] by blast
  from c1 c2 c3 c4 c5 c6 c7 c8 c9 show ?thesis by (intro conjI)
qed

lemma max_float_ge_2: "2 \<le> max_float"
proof -
  have "(1::real) \<le> 2 - 1 / 2 ^ 52"
  proof -
    have "(1::real) / 2 ^ 52 \<le> 1" by (simp add: divide_le_eq_1)
    then show ?thesis by linarith
  qed
  moreover have "(2::real) \<le> 2 ^ 1023"
    using power_increasing[of 1 1023 "2::real"] by simp
  ultimately have "(1::real) * 2 \<le> (2 - 1 / 2 ^ 52) * 2 ^ 1023"
    by (intro mult_mono) simp_all
  then show ?thesis unfolding max_float_def by (simp only: mult_1)
qed

lemma alternating_draws_bounded: "\<forall>k. \<bar>alternating_draws k\<bar> \<le> 1"
  by (simp add: alternating_draws_def)

lemma cholesky_factor_fp_singular: "cholesky_factor_fp [[1, 1], [1, 1]] = Inl LinAlgError"
  by (simp add: cholesky_factor_fp_def cholesky_factor_singular)

theorem correlated_returns_total_and_finite_witness:
  "list_all (\<lambda>x. x \<noteq> NonFin)
     (fst (generate_correlated_returns_fp cholesky_factor_fp two_pairs alternating_draws)) \<and>
   fst (generate_correlated_returns_fp cholesky_factor_fp same_symbol_pair alternating_draws)
     = [Fin (1 * (volatility_of ''EURUSD'' / sqrt 252)),
        Fin (- 1 / 2 * (volatility_of ''EURUSD'' / sqrt 252))] \<and>
   fst (generate_correlated_returns_fp cholesky_factor_fp [no_symbol_position] alternating_draws)
     = [Fin (- 1 / 200)]"
proof -
  note t1 = correlated_returns_total_and_finite[of two_pairs cholesky_factor_fp alternating_draws]
  note t2 = correlated_returns_total_and_finite[of same_symbol_pair cholesky_factor_fp
      alternating_draws]
  note t3 = correlated_returns_total_and_finite[of "[no_symbol_position]" cholesky_factor_fp
      alternating_draws]
  have a: "list_all (\<lambda>x. x \<noteq> NonFin)
     (fst (generate_correlated_returns_fp cholesky_factor_fp two_pairs alternating_draws))"
  proof -
    have "(1::real) * real (length two_pairs) \<le> max_float"
      using max_float_ge_2 by (simp add: two_pairs_def)
    moreover have "\<forall>m L. build_correlation_matrix two_pairs = Inr m \<and>
        cholesky_factor_fp m = Inr L \<longrightarrow> list_all (list_all (bounded_fin 1)) L"
      using cholesky_factor_fp_bounded by blast
    ultimately show ?thesis
      using t1 alternating_draws_bounded max_float_ge_1 by blast
  qed
  have b: "fst (generate_correlated_returns_fp cholesky_factor_fp same_symbol_pair alternating_draws)
     = [Fin (1 * (volatility_of ''EURUSD'' / sqrt 252)),
        Fin (- 1 / 2 * (volatility_of ''EURUSD'' / sqrt 252))]"
  proof -
    have sy: "\<forall>p\<in>set same_symbol_pair. symbol p \<noteq> None"
      by (simp add: same_symbol_pair_def mk_position_def)
    have s: "the (symbol (same_symbol_pair ! 0)) = ''EURUSD''"
      "the (symbol (same_symbol_pair ! Suc 0)) = ''EURUSD''"
      by (simp_all add: same_symbol_pair_def mk_position_def)
    have l: "[0..<length same_symbol_pair] = [0, Suc 0]"
      by (simp add: same_symbol_pair_def upt_rec)
    have d: "fl (alternating_draws 0) = Fin 1" "fl (alternating_draws (Suc 0)) = Fin (- 1 / 2)"
      using max_float_ge_1 by (simp_all add: alternating_draws_def fl_def)
    from t2 sy same_symbol_pair_matrix cholesky_factor_fp_singular
    have "generate_correlated_returns_fp cholesky_factor_fp same_symbol_pair alternating_draws =
        (map (\<lambda>i. fmul (fl (alternating_draws i))
                 (daily_vol_fp (the (symbol (same_symbol_pair ! i)))))
           [0..<length same_symbol_pair],
         \<lambda>k. alternating_draws (length same_symbol_pair + k))"
      by blast
    then show ?thesis
      unfolding l using max_float_ge_1 by (simp add: s d fmul_daily_vol)
  qed
  have c: "fst (generate_correlated_returns_fp cholesky_factor_fp [no_symbol_position]
      alternating_draws) = [Fin (- 1 / 200)]"
  proof -
    have m: "build_correlation_matrix [no_symbol_position] = Inr [[1]]"
      by (simp add: build_correlation_matrix_def eye_def)
    have "\<exists>p\<in>set [no_symbol_position]. symbol p = None"
      by (simp add: no_symbol_position_def)
    with t3 obtain e g1 where body: "generate_correlated_returns_fp_body cholesky_factor_fp
        [no_symbol_position] alternating_draws = (Inl e, g1)"
      by blast
    then have g1: "g1 = (\<lambda>k. alternating_draws (1 + k))"
      unfolding fp_body_unfold by (simp add: m)
    have bd: "\<forall>k. \<bar>alternating_draws (1 + k)\<bar> \<le> 1"
      using alternating_draws_bounded by blast
    from t3 body have "generate_correlated_returns_fp cholesky_factor_fp [no_symbol_position]
        alternating_draws = random_normal_vec_fp 0 0.01 (length [no_symbol_position]) g1"
      by blast
    with random_normal_vec_fp_handler[OF bd max_float_ge_1, of 1] g1 show ?thesis
      by (simp add: alternating_draws_def)
  qed
  from a b c show ?thesis by (intro conjI)
qed

end
